theory Spec2Isabelle
  imports Main
begin

section \<open>Python values and the library the program calls\<close>

text \<open>
  The program is dynamically typed: the payload that travels from the Oura client to the
  formatter is whatever \<^verbatim>\<open>response.json()\<close> returned. A value is therefore a JSON value.
  A dict is an association list in insertion order (a Python dict has each key once; a
  lookup takes the first binding). Floating point numbers are kept abstract: the type
  parameter \<open>'f\<close> stands for Python's float, and everything the program does with a
  float goes through the library record below.

  Strings are byte strings: a character outside ASCII is its UTF-8 encoding.
\<close>

datatype 'f json =
    JNull
  | JBool bool
  | JInt int
  | JFloat 'f
  | JStr string
  | JList "'f json list"
  | JDict "(string \<times> 'f json) list"

text \<open>The exceptions that can leave a function of the program.\<close>

datatype py_error =
    AttributeError
  | TypeError
  | KeyError
  | IndexError
  | ValueError
  | OverflowError
  | Propagated string

text \<open>
  A fallible computation returns \<open>Inl\<close> of the exception or \<open>Inr\<close> of its value;
  \<open>bind_err\<close> is sequencing: the first exception raised is the one that leaves.
\<close>

definition bind_err :: "'e + 'a \<Rightarrow> ('a \<Rightarrow> 'e + 'b) \<Rightarrow> 'e + 'b" where
  "bind_err m f = (case m of Inl e \<Rightarrow> Inl e | Inr x \<Rightarrow> f x)"

text \<open>A calendar date and a wall-clock reading (\<^verbatim>\<open>datetime.now()\<close>).\<close>

record date =
  year :: nat
  month :: nat
  day :: nat

record datetime =
  dt_date :: date
  dt_micros :: nat

text \<open>
  The functions of Python's standard library whose code is not part of the repository and
  whose result is not determined by integer or string arithmetic are parameters:
  \<^item> \<open>float_str x\<close> is \<^verbatim>\<open>str(x)\<close>, \<open>float_fmt_sign2 x\<close> is \<^verbatim>\<open>format(x, "+.2f")\<close>,
    \<open>float_floordiv x n\<close> is \<^verbatim>\<open>x // n\<close>, \<open>float_mod x n\<close> is \<^verbatim>\<open>x % n\<close>,
    \<open>float_gt_zero x\<close> is \<^verbatim>\<open>x > 0\<close> and \<open>float_truthy x\<close> is \<^verbatim>\<open>bool(x)\<close>, for a float \<open>x\<close>;
  \<^item> \<open>int_fmt_sign2 i\<close> is \<^verbatim>\<open>format(i, "+.2f")\<close> for an int (it converts to float first, so
    it raises OverflowError, here \<open>None\<close>, on an int too large for a float);
  \<^item> \<open>str_repr s\<close> is \<^verbatim>\<open>repr(s)\<close> of a string;
  \<^item> \<open>fromisoformat_12h s\<close> is \<^verbatim>\<open>datetime.fromisoformat(s).strftime("%-I:%M %p")\<close>
    and \<open>strptime_short s\<close> is \<^verbatim>\<open>datetime.strptime(s, "%Y-%m-%d").strftime("%b %-d")\<close>,
    \<open>None\<close> when the call raises;
  \<^item> \<open>strftime_ymd d\<close> is \<^verbatim>\<open>strftime("%Y-%m-%d")\<close> of a datetime on date \<open>d\<close>, and
    \<open>isoformat t\<close> is \<^verbatim>\<open>t.isoformat()\<close>;
  \<^item> \<open>int_of_str s\<close> is \<^verbatim>\<open>int(s)\<close>, \<open>None\<close> when it raises ValueError.
\<close>

record 'f pylib =
  float_str :: "'f \<Rightarrow> string"
  float_fmt_sign2 :: "'f \<Rightarrow> string"
  float_floordiv :: "'f \<Rightarrow> int \<Rightarrow> 'f"
  float_mod :: "'f \<Rightarrow> int \<Rightarrow> 'f"
  float_gt_zero :: "'f \<Rightarrow> bool"
  float_truthy :: "'f \<Rightarrow> bool"
  int_fmt_sign2 :: "int \<Rightarrow> string option"
  str_repr :: "string \<Rightarrow> string"
  fromisoformat_12h :: "string \<Rightarrow> string option"
  strptime_short :: "string \<Rightarrow> string option"
  strftime_ymd :: "date \<Rightarrow> string"
  isoformat :: "datetime \<Rightarrow> string"
  int_of_str :: "string \<Rightarrow> int option"

subsection \<open>Rendering values: \<^verbatim>\<open>str\<close>, \<^verbatim>\<open>repr\<close> and format specifications\<close>

fun join :: "string \<Rightarrow> string list \<Rightarrow> string" where
  "join sep [] = []"
| "join sep [x] = x"
| "join sep (x # y # ys) = x @ sep @ join sep (y # ys)"

fun nat_digits :: "nat \<Rightarrow> string" where
  "nat_digits n =
     (if n < 10 then [''0123456789'' ! n]
      else nat_digits (n div 10) @ [''0123456789'' ! (n mod 10)])"

declare nat_digits.simps [simp del]

definition str_int :: "int \<Rightarrow> string" where
  "str_int i = (if i < 0 then ''-'' @ nat_digits (nat (- i)) else nat_digits (nat i))"

text \<open>\<^verbatim>\<open>format(i, ",")\<close>: the decimal digits in groups of three from the right.\<close>

fun thousands :: "string \<Rightarrow> string" where
  "thousands ds =
     (if length ds \<le> 3 then ds
      else thousands (take (length ds - 3) ds) @ '','' @ drop (length ds - 3) ds)"

declare thousands.simps [simp del]

definition fmt_thousands :: "int \<Rightarrow> string" where
  "fmt_thousands i =
     (if i < 0 then ''-'' @ thousands (nat_digits (nat (- i)))
      else thousands (nat_digits (nat i)))"

fun py_repr :: "'f pylib \<Rightarrow> 'f json \<Rightarrow> string" where
  "py_repr lib JNull = ''None''"
| "py_repr lib (JBool b) = (if b then ''True'' else ''False'')"
| "py_repr lib (JInt i) = str_int i"
| "py_repr lib (JFloat x) = float_str lib x"
| "py_repr lib (JStr s) = str_repr lib s"
| "py_repr lib (JList xs) = ''['' @ join '', '' (map (py_repr lib) xs) @ '']''"
| "py_repr lib (JDict kvs) =
     ''{'' @ join '', '' (map (\<lambda>(k, v). str_repr lib k @ '': '' @ py_repr lib v) kvs) @ ''}''"

text \<open>What an f-string puts for \<^verbatim>\<open>{v}\<close>: \<^verbatim>\<open>str(v)\<close>.\<close>

definition py_str :: "'f pylib \<Rightarrow> 'f json \<Rightarrow> string" where
  "py_str lib v = (case v of JStr s \<Rightarrow> s | _ \<Rightarrow> py_repr lib v)"

subsection \<open>Truth value, dict access, subscript, iteration, arithmetic\<close>

definition truthy :: "'f pylib \<Rightarrow> 'f json \<Rightarrow> bool" where
  "truthy lib v =
     (case v of
        JNull \<Rightarrow> False
      | JBool b \<Rightarrow> b
      | JInt i \<Rightarrow> i \<noteq> 0
      | JFloat x \<Rightarrow> float_truthy lib x
      | JStr s \<Rightarrow> s \<noteq> []
      | JList xs \<Rightarrow> xs \<noteq> []
      | JDict kvs \<Rightarrow> kvs \<noteq> [])"

text \<open>\<^verbatim>\<open>x.get(key, default)\<close>: only a dict has the method.\<close>

definition dict_get :: "'f json \<Rightarrow> string \<Rightarrow> 'f json \<Rightarrow> py_error + 'f json" where
  "dict_get x key dflt =
     (case x of
        JDict kvs \<Rightarrow> Inr (case map_of kvs key of Some v \<Rightarrow> v | None \<Rightarrow> dflt)
      | _ \<Rightarrow> Inl AttributeError)"

text \<open>\<^verbatim>\<open>x[key]\<close> for a string key.\<close>

definition subscript_key :: "'f json \<Rightarrow> string \<Rightarrow> py_error + 'f json" where
  "subscript_key x key =
     (case x of
        JDict kvs \<Rightarrow> (case map_of kvs key of Some v \<Rightarrow> Inr v | None \<Rightarrow> Inl KeyError)
      | _ \<Rightarrow> Inl TypeError)"

text \<open>
  \<^verbatim>\<open>x[0]\<close>: the first element of a list, the first character of a string; a dict from JSON
  has string keys only, so the key \<^verbatim>\<open>0\<close> is missing; the other values have no subscript.
\<close>

definition subscript0 :: "'f json \<Rightarrow> py_error + 'f json" where
  "subscript0 x =
     (case x of
        JList xs \<Rightarrow> (case xs of [] \<Rightarrow> Inl IndexError | y # _ \<Rightarrow> Inr y)
      | JStr s \<Rightarrow> (case s of [] \<Rightarrow> Inl IndexError | c # _ \<Rightarrow> Inr (JStr [c]))
      | JDict kvs \<Rightarrow> Inl KeyError
      | _ \<Rightarrow> Inl TypeError)"

text \<open>
  The values a \<^verbatim>\<open>for\<close> loop visits: the elements of a list, the characters of a string,
  the keys of a dict; the other values are not iterable.
\<close>

definition py_iter :: "'f json \<Rightarrow> py_error + 'f json list" where
  "py_iter x =
     (case x of
        JList xs \<Rightarrow> Inr xs
      | JStr s \<Rightarrow> Inr (map (\<lambda>c. JStr [c]) s)
      | JDict kvs \<Rightarrow> Inr (map (\<lambda>kv. JStr (fst kv)) kvs)
      | _ \<Rightarrow> Inl TypeError)"

text \<open>
  \<^verbatim>\<open>x // n\<close> and \<^verbatim>\<open>x % n\<close> for an int literal \<open>n > 0\<close>, and \<^verbatim>\<open>x > 0\<close>. A bool is an int
  in Python. Python's integer division floors, as \<open>div\<close> on \<open>int\<close> does.
\<close>

definition py_floordiv :: "'f pylib \<Rightarrow> 'f json \<Rightarrow> int \<Rightarrow> py_error + 'f json" where
  "py_floordiv lib x n =
     (case x of
        JInt i \<Rightarrow> Inr (JInt (i div n))
      | JBool b \<Rightarrow> Inr (JInt ((if b then 1 else 0) div n))
      | JFloat y \<Rightarrow> Inr (JFloat (float_floordiv lib y n))
      | _ \<Rightarrow> Inl TypeError)"

definition py_mod :: "'f pylib \<Rightarrow> 'f json \<Rightarrow> int \<Rightarrow> py_error + 'f json" where
  "py_mod lib x n =
     (case x of
        JInt i \<Rightarrow> Inr (JInt (i mod n))
      | JBool b \<Rightarrow> Inr (JInt ((if b then 1 else 0) mod n))
      | JFloat y \<Rightarrow> Inr (JFloat (float_mod lib y n))
      | _ \<Rightarrow> Inl TypeError)"

definition py_gt_zero :: "'f pylib \<Rightarrow> 'f json \<Rightarrow> py_error + bool" where
  "py_gt_zero lib x =
     (case x of
        JInt i \<Rightarrow> Inr (0 < i)
      | JBool b \<Rightarrow> Inr b
      | JFloat y \<Rightarrow> Inr (float_gt_zero lib y)
      | _ \<Rightarrow> Inl TypeError)"

section \<open>email_service.py: the formatting helpers\<close>

text \<open>
  \<^verbatim>\<open>
  def format_duration(seconds):
      if seconds is None: return "N/A"
      hours = seconds // 3600
      minutes = (seconds % 3600) // 60
      if hours > 0: return f"{hours}h {minutes}m"
      return f"{minutes}m"
  \<close>
\<close>

definition format_duration :: "'f pylib \<Rightarrow> 'f json \<Rightarrow> py_error + string" where
  "format_duration lib seconds =
     (if seconds = JNull then Inr ''N/A''
      else
        bind_err (py_floordiv lib seconds 3600) (\<lambda>hours.
        bind_err (py_mod lib seconds 3600) (\<lambda>rest.
        bind_err (py_floordiv lib rest 60) (\<lambda>minutes.
        bind_err (py_gt_zero lib hours) (\<lambda>positive.
          if positive then Inr (py_str lib hours @ ''h '' @ py_str lib minutes @ ''m'')
          else Inr (py_str lib minutes @ ''m''))))))"

text \<open>\<^verbatim>\<open>s.replace("Z", "+00:00")\<close>\<close>

definition replace_Z :: "string \<Rightarrow> string" where
  "replace_Z s = concat (map (\<lambda>c. if c = CHR ''Z'' then ''+00:00'' else [c]) s)"

text \<open>
  \<^verbatim>\<open>format_time\<close> and \<^verbatim>\<open>format_date_short\<close> return the placeholder for a false argument,
  the rendered time or date when parsing succeeds, and the argument itself when anything
  in the \<^verbatim>\<open>try\<close> block raises (the \<^verbatim>\<open>except:\<close> is bare): a value without the string
  method \<^verbatim>\<open>replace\<close>, or a string the parser rejects.
\<close>

definition format_time :: "'f pylib \<Rightarrow> 'f json \<Rightarrow> 'f json" where
  "format_time lib iso_string =
     (if \<not> truthy lib iso_string then JStr ''N/A''
      else
        (case iso_string of
           JStr s \<Rightarrow>
             (case fromisoformat_12h lib (replace_Z s) of
                Some t \<Rightarrow> JStr t
              | None \<Rightarrow> iso_string)
         | _ \<Rightarrow> iso_string))"

definition format_date_short :: "'f pylib \<Rightarrow> 'f json \<Rightarrow> 'f json" where
  "format_date_short lib date_str =
     (if \<not> truthy lib date_str then JStr ''N/A''
      else
        (case date_str of
           JStr s \<Rightarrow>
             (case strptime_short lib s of
                Some t \<Rightarrow> JStr t
              | None \<Rightarrow> date_str)
         | _ \<Rightarrow> date_str))"

section \<open>email_service.py: \<^verbatim>\<open>format_oura_report\<close>\<close>

subsection \<open>Extracting the records (lines 65 to 94)\<close>

text \<open>
  \<^verbatim>\<open>slot.get("data", [{}])[0] if slot.get("data") else {}\<close>, the expression the source
  writes for the daily sleep, activity, readiness and stress slots.
\<close>

definition first_record :: "'f pylib \<Rightarrow> 'f json \<Rightarrow> py_error + 'f json" where
  "first_record lib slot =
     bind_err (dict_get slot ''data'' JNull) (\<lambda>cond.
       if truthy lib cond
       then bind_err (dict_get slot ''data'' (JList [JDict []])) subscript0
       else Inr (JDict []))"

text \<open>
  The loop \<^verbatim>\<open>for period in sleep_periods["data"]\<close> with its \<^verbatim>\<open>break\<close>: \<open>Some p\<close> when
  the loop left at \<open>p\<close>, \<open>None\<close> when it ran to the end. A period after the one found is
  never looked at.
\<close>

fun find_long_sleep :: "'f json list \<Rightarrow> py_error + 'f json option" where
  "find_long_sleep [] = Inr None"
| "find_long_sleep (period # rest) =
     bind_err (dict_get period ''type'' JNull) (\<lambda>t.
       if t = JStr ''long_sleep'' then Inr (Some period) else find_long_sleep rest)"

text \<open>
  \<^verbatim>\<open>
  period_data = {}
  if sleep_periods.get("data"):
      for period in sleep_periods["data"]:
          if period.get("type") == "long_sleep":
              period_data = period
              break
      if not period_data and sleep_periods["data"]:
          period_data = sleep_periods["data"][0]
  \<close>
\<close>

definition select_period :: "'f pylib \<Rightarrow> 'f json \<Rightarrow> py_error + 'f json" where
  "select_period lib sleep_periods =
     bind_err (dict_get sleep_periods ''data'' JNull) (\<lambda>cond.
       if truthy lib cond then
         bind_err (subscript_key sleep_periods ''data'') (\<lambda>periods.
         bind_err (py_iter periods) (\<lambda>ps.
         bind_err (find_long_sleep ps) (\<lambda>found.
           let period_data = (case found of Some p \<Rightarrow> p | None \<Rightarrow> JDict []) in
           if truthy lib period_data then Inr period_data
           else
             bind_err (subscript_key sleep_periods ''data'') (\<lambda>again.
               if truthy lib again then subscript0 again else Inr period_data))))
       else Inr (JDict []))"

record 'f records =
  r_date :: "'f json"
  r_activity_date :: "'f json"
  sleep_data :: "'f json"
  period_data :: "'f json"
  activity_data :: "'f json"
  readiness_data :: "'f json"
  stress_data :: "'f json"
  workout_list :: "'f json"

definition extract_records :: "'f pylib \<Rightarrow> 'f json \<Rightarrow> py_error + 'f records" where
  "extract_records lib oura_data =
     bind_err (dict_get oura_data ''date'' (JStr ''Unknown'')) (\<lambda>date.
     bind_err (dict_get oura_data ''activity_date'' date) (\<lambda>activity_date.
     bind_err (dict_get oura_data ''daily_sleep'' (JDict [])) (\<lambda>daily_sleep.
     bind_err (first_record lib daily_sleep) (\<lambda>sleep.
     bind_err (dict_get oura_data ''sleep_periods'' (JDict [])) (\<lambda>sleep_periods.
     bind_err (select_period lib sleep_periods) (\<lambda>period.
     bind_err (dict_get oura_data ''daily_activity'' (JDict [])) (\<lambda>daily_activity.
     bind_err (first_record lib daily_activity) (\<lambda>activity.
     bind_err (dict_get oura_data ''daily_readiness'' (JDict [])) (\<lambda>daily_readiness.
     bind_err (first_record lib daily_readiness) (\<lambda>readiness.
     bind_err (dict_get oura_data ''daily_stress'' (JDict [])) (\<lambda>daily_stress.
     bind_err (first_record lib daily_stress) (\<lambda>stress.
     bind_err (dict_get oura_data ''workouts'' (JDict [])) (\<lambda>workouts.
     bind_err (if truthy lib workouts then dict_get workouts ''data'' (JList [])
               else Inr (JList [])) (\<lambda>wl.
       Inr \<lparr> r_date = date, r_activity_date = activity_date, sleep_data = sleep,
             period_data = period, activity_data = activity, readiness_data = readiness,
             stress_data = stress, workout_list = wl \<rparr>))))))))))))))"

subsection \<open>The values the report shows (lines 97 to 147)\<close>

text \<open>\<^verbatim>\<open>format_duration(rec.get(key, 0))\<close>\<close>

definition duration_field :: "'f pylib \<Rightarrow> 'f json \<Rightarrow> string \<Rightarrow> py_error + string" where
  "duration_field lib rec key = bind_err (dict_get rec key (JInt 0)) (format_duration lib)"

record 'f period_vars =
  bedtime_start :: "'f json"
  bedtime_end :: "'f json"
  time_in_bed :: string
  total_sleep :: string
  latency_min :: "'f json"
  deep_duration :: string
  rem_duration :: string
  light_duration :: string
  avg_hr :: "'f json"
  lowest_hr :: "'f json"
  avg_hrv :: "'f json"
  avg_breath :: "'f json"
  restless :: "'f json"

text \<open>Lines 108 to 123; \<^verbatim>\<open>latency_min = latency_sec // 60 if latency_sec else 0\<close>.\<close>

definition period_details :: "'f pylib \<Rightarrow> 'f json \<Rightarrow> py_error + 'f period_vars" where
  "period_details lib pd =
     bind_err (dict_get pd ''bedtime_start'' (JStr [])) (\<lambda>b_start.
     bind_err (dict_get pd ''bedtime_end'' (JStr [])) (\<lambda>b_end.
     bind_err (duration_field lib pd ''time_in_bed'') (\<lambda>in_bed.
     bind_err (duration_field lib pd ''total_sleep_duration'') (\<lambda>total.
     bind_err (dict_get pd ''latency'' (JInt 0)) (\<lambda>latency_sec.
     bind_err (if truthy lib latency_sec then py_floordiv lib latency_sec 60
               else Inr (JInt 0)) (\<lambda>latency.
     bind_err (duration_field lib pd ''deep_sleep_duration'') (\<lambda>deep.
     bind_err (duration_field lib pd ''rem_sleep_duration'') (\<lambda>rem.
     bind_err (duration_field lib pd ''light_sleep_duration'') (\<lambda>light.
     bind_err (dict_get pd ''average_heart_rate'' (JStr ''N/A'')) (\<lambda>hr.
     bind_err (dict_get pd ''lowest_heart_rate'' (JStr ''N/A'')) (\<lambda>low_hr.
     bind_err (dict_get pd ''average_hrv'' (JStr ''N/A'')) (\<lambda>hrv.
     bind_err (dict_get pd ''average_breath'' (JStr ''N/A'')) (\<lambda>breath.
     bind_err (dict_get pd ''restless_periods'' (JStr ''N/A'')) (\<lambda>rest.
       Inr \<lparr> bedtime_start = format_time lib b_start, bedtime_end = format_time lib b_end,
             time_in_bed = in_bed, total_sleep = total, latency_min = latency,
             deep_duration = deep, rem_duration = rem, light_duration = light,
             avg_hr = hr, lowest_hr = low_hr, avg_hrv = hrv, avg_breath = breath,
             restless = rest \<rparr>))))))))))))))"

text \<open>The degree sign, the arrow and the dash of the report, and the moon of the subject, in UTF-8.\<close>

definition degree_sign :: string where
  "degree_sign = [CHR 0xC2, CHR 0xB0]"

definition right_arrow :: string where
  "right_arrow = [CHR 0xE2, CHR 0x86, CHR 0x92]"

definition em_dash :: string where
  "em_dash = [CHR 0xE2, CHR 0x80, CHR 0x94]"

definition crescent_moon :: string where
  "crescent_moon = [CHR 0xF0, CHR 0x9F, CHR 0x8C, CHR 0x99]"

text \<open>
  Lines 126 to 128: a number (a bool is one) is rendered with sign and two decimals.
\<close>

definition temp_deviation :: "'f pylib \<Rightarrow> 'f json \<Rightarrow> py_error + 'f json" where
  "temp_deviation lib readiness =
     bind_err (dict_get readiness ''temperature_deviation'' (JStr ''N/A'')) (\<lambda>temp_dev.
       case temp_dev of
         JInt i \<Rightarrow>
           (case int_fmt_sign2 lib i of
              Some s \<Rightarrow> Inr (JStr (s @ degree_sign @ ''C''))
            | None \<Rightarrow> Inl OverflowError)
       | JBool b \<Rightarrow>
           (case int_fmt_sign2 lib (if b then 1 else 0) of
              Some s \<Rightarrow> Inr (JStr (s @ degree_sign @ ''C''))
            | None \<Rightarrow> Inl OverflowError)
       | JFloat x \<Rightarrow> Inr (JStr (float_fmt_sign2 lib x @ degree_sign @ ''C''))
       | _ \<Rightarrow> Inr temp_dev)"

record 'f activity_vars =
  steps :: "'f json"
  active_cal :: "'f json"
  low_activity :: string
  med_activity :: string
  high_activity :: string

text \<open>Lines 131 to 137: an int (a bool is one) step count gets thousands separators.\<close>

definition activity_details :: "'f pylib \<Rightarrow> 'f json \<Rightarrow> py_error + 'f activity_vars" where
  "activity_details lib ad =
     bind_err (dict_get ad ''steps'' (JStr ''N/A'')) (\<lambda>st.
     bind_err (dict_get ad ''active_calories'' (JStr ''N/A'')) (\<lambda>cal.
     bind_err (duration_field lib ad ''low_activity_time'') (\<lambda>low.
     bind_err (duration_field lib ad ''medium_activity_time'') (\<lambda>med.
     bind_err (duration_field lib ad ''high_activity_time'') (\<lambda>high.
       Inr \<lparr> steps = (case st of
                         JInt i \<Rightarrow> JStr (fmt_thousands i)
                       | JBool b \<Rightarrow> JStr (fmt_thousands (if b then 1 else 0))
                       | _ \<Rightarrow> st),
             active_cal = cal, low_activity = low, med_activity = med,
             high_activity = high \<rparr>)))))"

record 'f stress_vars =
  stress_summary :: "'f json"
  recovery_time :: string
  stress_time :: string

text \<open>
  Lines 140 to 144;
  \<^verbatim>\<open>recovery_time = format_duration(recovery_high) if recovery_high else "0m"\<close>.
\<close>

definition stress_details :: "'f pylib \<Rightarrow> 'f json \<Rightarrow> py_error + 'f stress_vars" where
  "stress_details lib sd =
     bind_err (dict_get sd ''day_summary'' (JStr ''N/A'')) (\<lambda>summary.
     bind_err (dict_get sd ''recovery_high'' (JInt 0)) (\<lambda>recovery_high.
     bind_err (dict_get sd ''stress_high'' (JInt 0)) (\<lambda>stress_high.
     bind_err (if truthy lib recovery_high then format_duration lib recovery_high
               else Inr ''0m'') (\<lambda>recovery.
     bind_err (if truthy lib stress_high then format_duration lib stress_high
               else Inr ''0m'') (\<lambda>stress.
       Inr \<lparr> stress_summary = summary, recovery_time = recovery,
             stress_time = stress \<rparr>)))))"

text \<open>
  The lookups the f-string itself makes, in the order it makes them:
  \<^verbatim>\<open>sleep_contrib.get('deep_sleep', 'N/A')\<close> and so on.
\<close>

record 'f sleep_contrib_vars =
  sc_deep_sleep :: "'f json"
  sc_rem_sleep :: "'f json"
  sc_timing :: "'f json"
  sc_efficiency :: "'f json"
  sc_restfulness :: "'f json"
  sc_latency :: "'f json"
  sc_total_sleep :: "'f json"

definition sleep_contributors :: "'f json \<Rightarrow> py_error + 'f sleep_contrib_vars" where
  "sleep_contributors sleep_contrib =
     bind_err (dict_get sleep_contrib ''deep_sleep'' (JStr ''N/A'')) (\<lambda>deep.
     bind_err (dict_get sleep_contrib ''rem_sleep'' (JStr ''N/A'')) (\<lambda>rem.
     bind_err (dict_get sleep_contrib ''timing'' (JStr ''N/A'')) (\<lambda>timing.
     bind_err (dict_get sleep_contrib ''efficiency'' (JStr ''N/A'')) (\<lambda>efficiency.
     bind_err (dict_get sleep_contrib ''restfulness'' (JStr ''N/A'')) (\<lambda>restfulness.
     bind_err (dict_get sleep_contrib ''latency'' (JStr ''N/A'')) (\<lambda>latency.
     bind_err (dict_get sleep_contrib ''total_sleep'' (JStr ''N/A'')) (\<lambda>total.
       Inr \<lparr> sc_deep_sleep = deep, sc_rem_sleep = rem, sc_timing = timing,
             sc_efficiency = efficiency, sc_restfulness = restfulness,
             sc_latency = latency, sc_total_sleep = total \<rparr>)))))))"

record 'f readiness_contrib_vars =
  rc_hrv_balance :: "'f json"
  rc_sleep_balance :: "'f json"
  rc_previous_night :: "'f json"
  rc_recovery_index :: "'f json"

definition readiness_contributors :: "'f json \<Rightarrow> py_error + 'f readiness_contrib_vars" where
  "readiness_contributors readiness_contrib =
     bind_err (dict_get readiness_contrib ''hrv_balance'' (JStr ''N/A'')) (\<lambda>hrv.
     bind_err (dict_get readiness_contrib ''sleep_balance'' (JStr ''N/A'')) (\<lambda>sleep.
     bind_err (dict_get readiness_contrib ''previous_night'' (JStr ''N/A'')) (\<lambda>night.
     bind_err (dict_get readiness_contrib ''recovery_index'' (JStr ''N/A'')) (\<lambda>recovery.
       Inr \<lparr> rc_hrv_balance = hrv, rc_sleep_balance = sleep, rc_previous_night = night,
             rc_recovery_index = recovery \<rparr>))))"

record 'f report_vars =
  v_date :: "'f json"
  sleep_score :: "'f json"
  activity_score :: "'f json"
  readiness_score :: "'f json"
  v_period :: "'f period_vars"
  temp_dev :: "'f json"
  v_activity :: "'f activity_vars"
  v_stress :: "'f stress_vars"
  date_short :: "'f json"
  activity_date_short :: "'f json"
  v_sleep_contrib :: "'f sleep_contrib_vars"
  v_readiness_contrib :: "'f readiness_contrib_vars"

definition report_values :: "'f pylib \<Rightarrow> 'f records \<Rightarrow> py_error + 'f report_vars" where
  "report_values lib r =
     bind_err (dict_get (sleep_data r) ''score'' (JStr ''N/A'')) (\<lambda>s_score.
     bind_err (dict_get (activity_data r) ''score'' (JStr ''N/A'')) (\<lambda>a_score.
     bind_err (dict_get (readiness_data r) ''score'' (JStr ''N/A'')) (\<lambda>r_score.
     bind_err (dict_get (sleep_data r) ''contributors'' (JDict [])) (\<lambda>sleep_contrib.
     bind_err (dict_get (readiness_data r) ''contributors'' (JDict [])) (\<lambda>readiness_contrib.
     bind_err (period_details lib (period_data r)) (\<lambda>period.
     bind_err (temp_deviation lib (readiness_data r)) (\<lambda>temp.
     bind_err (activity_details lib (activity_data r)) (\<lambda>activity.
     bind_err (stress_details lib (stress_data r)) (\<lambda>stress.
     bind_err (sleep_contributors sleep_contrib) (\<lambda>sc.
     bind_err (readiness_contributors readiness_contrib) (\<lambda>rc.
       Inr \<lparr> v_date = r_date r, sleep_score = s_score, activity_score = a_score,
             readiness_score = r_score, v_period = period, temp_dev = temp,
             v_activity = activity, v_stress = stress,
             date_short = format_date_short lib (r_date r),
             activity_date_short = format_date_short lib (r_activity_date r),
             v_sleep_contrib = sc, v_readiness_contrib = rc \<rparr>)))))))))))"

subsection \<open>The report text (lines 150 to 203)\<close>

text \<open>The f-string of lines 150 to 190, line by line; every \<^verbatim>\<open>{v}\<close> is \<^verbatim>\<open>str(v)\<close>.\<close>

definition render_report :: "'f pylib \<Rightarrow> 'f report_vars \<Rightarrow> string" where
  "render_report lib v = concat
     [''Oura Daily Report '', em_dash, '' '', py_str lib (v_date v), ''\<newline>'',
      ''\<newline>'',
      ''SCORES\<newline>'',
      ''  Sleep: '', py_str lib (sleep_score v), '' | Activity: '',
        py_str lib (activity_score v), '' | Readiness: '',
        py_str lib (readiness_score v), ''\<newline>'',
      ''\<newline>'',
      ''SLEEP ('', py_str lib (date_short v), '')\<newline>'',
      ''  Bedtime: '', py_str lib (bedtime_start (v_period v)), '' '', right_arrow, '' '',
        py_str lib (bedtime_end (v_period v)), '' ('', time_in_bed (v_period v),
        '' in bed)\<newline>'',
      ''  Total sleep: '', total_sleep (v_period v), ''\<newline>'',
      ''  Latency: '', py_str lib (latency_min (v_period v)), '' min\<newline>'',
      ''  \<newline>'',
      ''  Stages:\<newline>'',
      ''    Deep: '', deep_duration (v_period v), '' (score: '',
        py_str lib (sc_deep_sleep (v_sleep_contrib v)), '')\<newline>'',
      ''    REM: '', rem_duration (v_period v), '' (score: '',
        py_str lib (sc_rem_sleep (v_sleep_contrib v)), '')\<newline>'',
      ''    Light: '', light_duration (v_period v), ''\<newline>'',
      ''  \<newline>'',
      ''  Contributors:\<newline>'',
      ''    Timing: '', py_str lib (sc_timing (v_sleep_contrib v)), '' | Efficiency: '',
        py_str lib (sc_efficiency (v_sleep_contrib v)), '' | Restfulness: '',
        py_str lib (sc_restfulness (v_sleep_contrib v)), ''\<newline>'',
      ''    Latency: '', py_str lib (sc_latency (v_sleep_contrib v)), '' | Total: '',
        py_str lib (sc_total_sleep (v_sleep_contrib v)), ''\<newline>'',
      ''  \<newline>'',
      ''  Physiology:\<newline>'',
      ''    Avg HR: '', py_str lib (avg_hr (v_period v)), '' bpm | Lowest: '',
        py_str lib (lowest_hr (v_period v)), '' bpm\<newline>'',
      ''    Avg HRV: '', py_str lib (avg_hrv (v_period v)), '' ms\<newline>'',
      ''    Avg breath: '', py_str lib (avg_breath (v_period v)), ''/min\<newline>'',
      ''    Restless periods: '', py_str lib (restless (v_period v)), ''\<newline>'',
      ''\<newline>'',
      ''READINESS\<newline>'',
      ''  Score: '', py_str lib (readiness_score v), ''\<newline>'',
      ''  Temp deviation: '', py_str lib (temp_dev v), ''\<newline>'',
      ''  Contributors:\<newline>'',
      ''    HRV balance: '', py_str lib (rc_hrv_balance (v_readiness_contrib v)),
        '' | Sleep balance: '', py_str lib (rc_sleep_balance (v_readiness_contrib v)),
        ''\<newline>'',
      ''    Previous night: '', py_str lib (rc_previous_night (v_readiness_contrib v)),
        '' | Recovery index: '', py_str lib (rc_recovery_index (v_readiness_contrib v)),
        ''\<newline>'',
      ''\<newline>'',
      ''ACTIVITY ('', py_str lib (activity_date_short v), '')\<newline>'',
      ''  Steps: '', py_str lib (steps (v_activity v)), ''\<newline>'',
      ''  Active calories: '', py_str lib (active_cal (v_activity v)), ''\<newline>'',
      ''  Low activity: '', low_activity (v_activity v), '' | Medium: '',
        med_activity (v_activity v), '' | High: '', high_activity (v_activity v),
        ''\<newline>'',
      ''\<newline>'',
      ''STRESS ('', py_str lib (activity_date_short v), '')\<newline>'',
      ''  Day summary: '', py_str lib (stress_summary (v_stress v)), ''\<newline>'',
      ''  Recovery time: '', recovery_time (v_stress v), '' | Stress time: '',
        stress_time (v_stress v), ''\<newline>'']"

text \<open>
  \<^verbatim>\<open>
  for w in workout_list:
      w_type = w.get("activity", "Unknown")
      w_cal = w.get("calories", "N/A")
      w_duration = format_duration(w.get("duration", 0))
      report += f"  {w_type}: {w_duration}, {w_cal} cal\n"
  \<close>
\<close>

fun workout_lines :: "'f pylib \<Rightarrow> 'f json list \<Rightarrow> py_error + string" where
  "workout_lines lib [] = Inr []"
| "workout_lines lib (w # ws) =
     bind_err (dict_get w ''activity'' (JStr ''Unknown'')) (\<lambda>w_type.
     bind_err (dict_get w ''calories'' (JStr ''N/A'')) (\<lambda>w_cal.
     bind_err (duration_field lib w ''duration'') (\<lambda>w_duration.
     bind_err (workout_lines lib ws) (\<lambda>rest.
       Inr (''  '' @ py_str lib w_type @ '': '' @ w_duration @ '', '' @ py_str lib w_cal
            @ '' cal\<newline>'' @ rest)))))"

definition workouts_section :: "'f pylib \<Rightarrow> 'f json \<Rightarrow> py_error + string" where
  "workouts_section lib wl =
     (if truthy lib wl then
        bind_err (py_iter wl) (\<lambda>ws.
        bind_err (workout_lines lib ws) (\<lambda>lines.
          Inr (''\<newline>WORKOUTS\<newline>'' @ lines)))
      else Inr ''\<newline>WORKOUTS\<newline>  None logged\<newline>'')"

definition format_oura_report :: "'f pylib \<Rightarrow> 'f json \<Rightarrow> py_error + string" where
  "format_oura_report lib oura_data =
     bind_err (extract_records lib oura_data) (\<lambda>r.
     bind_err (report_values lib r) (\<lambda>v.
     bind_err (workouts_section lib (workout_list r)) (\<lambda>workouts.
       Inr (render_report lib v @ workouts))))"

section \<open>email_service.py: \<^verbatim>\<open>format_html_report\<close>\<close>

text \<open>
  The f-string of lines 212 to 233 around \<^verbatim>\<open>{text_report}\<close>; \<^verbatim>\<open>{{\<close> and \<^verbatim>\<open>}}\<close> are
  single braces.
\<close>

definition html_head :: string where
  "html_head = concat
     [''\<newline>'',
      ''<!DOCTYPE html>\<newline>'',
      ''<html>\<newline>'',
      ''<head>\<newline>'',
      ''    <style>\<newline>'',
      ''        body { \<newline>'',
      ''            font-family: monospace;\<newline>'',
      ''            font-size: 14px;\<newline>'',
      ''            line-height: 1.5;\<newline>'',
      ''            color: #333;\<newline>'',
      ''        }\<newline>'',
      ''        pre {\<newline>'',
      ''            white-space: pre-wrap;\<newline>'',
      ''            font-family: monospace;\<newline>'',
      ''        }\<newline>'',
      ''    </style>\<newline>'',
      ''</head>\<newline>'',
      ''<body>\<newline>'',
      ''    <pre>'']"

definition html_tail :: string where
  "html_tail = concat
     [''</pre>\<newline>'',
      ''</body>\<newline>'',
      ''</html>\<newline>'']"

definition format_html_report :: "'f pylib \<Rightarrow> 'f json \<Rightarrow> py_error + string" where
  "format_html_report lib oura_data =
     bind_err (format_oura_report lib oura_data) (\<lambda>text_report.
       Inr (html_head @ text_report @ html_tail))"

section \<open>email_service.py: \<^verbatim>\<open>EmailService\<close>\<close>

record email_service =
  smtp_server :: string
  smtp_port :: int
  sender_email :: string
  sender_password :: string
  use_tls :: bool

text \<open>The multipart message \<^verbatim>\<open>send_email\<close> builds.\<close>

record mail =
  mail_subject :: string
  mail_from :: string
  mail_to :: string
  mail_plain :: string
  mail_html :: "string option"

text \<open>
  The mail transport is a collaborator: \<open>transport svc m\<close> is \<open>True\<close> when the SMTP
  dialogue of the \<^verbatim>\<open>try\<close> block (connect, TLS, login, sendmail, quit) goes through and
  \<open>False\<close> when any step raises; \<^verbatim>\<open>send_email\<close> returns \<^verbatim>\<open>True\<close> in the first case and
  \<^verbatim>\<open>False\<close> from its \<^verbatim>\<open>except Exception\<close> in the second. The HTML part is attached
  when \<^verbatim>\<open>body_html\<close> is true: neither \<^verbatim>\<open>None\<close> nor empty.
\<close>

type_synonym transport = "email_service \<Rightarrow> mail \<Rightarrow> bool"

definition send_email ::
  "transport \<Rightarrow> email_service \<Rightarrow> string \<Rightarrow> string \<Rightarrow> string \<Rightarrow> string option \<Rightarrow> bool" where
  "send_email transport svc recipient subject body_text body_html =
     transport svc
       \<lparr> mail_subject = subject, mail_from = sender_email svc, mail_to = recipient,
         mail_plain = body_text,
         mail_html = (case body_html of
                        None \<Rightarrow> None
                      | Some h \<Rightarrow> if h = [] then None else Some h) \<rparr>"

text \<open>
  \<^verbatim>\<open>
  def send_oura_data(self, recipient, oura_data):
      date = oura_data.get("date", "Unknown")
      subject = f"(moon) Oura Daily Report (dash) {date}"
      body_text = format_oura_report(oura_data)
      body_html = format_html_report(oura_data)
      return self.send_email(recipient, subject, body_text, body_html)
  \<close>
  An exception of the formatter is not caught here.
\<close>

definition send_oura_data ::
  "'f pylib \<Rightarrow> transport \<Rightarrow> email_service \<Rightarrow> string \<Rightarrow> 'f json \<Rightarrow> py_error + bool" where
  "send_oura_data lib transport svc recipient oura_data =
     bind_err (dict_get oura_data ''date'' (JStr ''Unknown'')) (\<lambda>date.
     bind_err (format_oura_report lib oura_data) (\<lambda>body_text.
     bind_err (format_html_report lib oura_data) (\<lambda>body_html.
       Inr (send_email transport svc recipient
              (crescent_moon @ '' Oura Daily Report '' @ em_dash @ '' '' @ py_str lib date)
              body_text (Some body_html)))))"

section \<open>oura_client.py\<close>

subsection \<open>One day before and after a date\<close>

text \<open>
  \<^verbatim>\<open>datetime.now() - timedelta(days=1)\<close> and \<^verbatim>\<open>datetime.now() + timedelta(days=1)\<close> keep
  the time of day and move the date by one day of the proleptic Gregorian calendar;
  Python's dates run from year 1 to year 9999 and the operation raises OverflowError
  beyond them.
\<close>

definition is_leap :: "nat \<Rightarrow> bool" where
  "is_leap y = (y mod 4 = 0 \<and> (y mod 100 \<noteq> 0 \<or> y mod 400 = 0))"

definition days_in_month :: "nat \<Rightarrow> nat \<Rightarrow> nat" where
  "days_in_month y m =
     (if m = 2 then (if is_leap y then 29 else 28)
      else if m = 4 \<or> m = 6 \<or> m = 9 \<or> m = 11 then 30
      else 31)"

definition valid_date :: "date \<Rightarrow> bool" where
  "valid_date d =
     (1 \<le> year d \<and> year d \<le> 9999 \<and> 1 \<le> month d \<and> month d \<le> 12 \<and>
      1 \<le> day d \<and> day d \<le> days_in_month (year d) (month d))"

definition day_before :: "date \<Rightarrow> py_error + date" where
  "day_before d =
     (if 1 < day d then Inr (d\<lparr>day := day d - 1\<rparr>)
      else if 1 < month d then
        Inr (d\<lparr>month := month d - 1, day := days_in_month (year d) (month d - 1)\<rparr>)
      else if 1 < year d then Inr (d\<lparr>year := year d - 1, month := 12, day := 31\<rparr>)
      else Inl OverflowError)"

definition day_after :: "date \<Rightarrow> py_error + date" where
  "day_after d =
     (if day d < days_in_month (year d) (month d) then Inr (d\<lparr>day := day d + 1\<rparr>)
      else if month d < 12 then Inr (d\<lparr>month := month d + 1, day := 1\<rparr>)
      else if year d < 9999 then Inr (d\<lparr>year := year d + 1, month := 1, day := 1\<rparr>)
      else Inl OverflowError)"

subsection \<open>Requests\<close>

text \<open>
  The HTTP collaborator (\<^verbatim>\<open>requests.get\<close>, \<^verbatim>\<open>raise_for_status\<close>,
  \<^verbatim>\<open>response.json()\<close>) answers a request with the decoded body or raises.
  \<open>RequestException reason\<close> is the family \<^verbatim>\<open>requests.exceptions.RequestException\<close>
  (connection errors, timeouts, the HTTPError of a 401 or 429 status), \<open>reason\<close> being
  \<^verbatim>\<open>str(e)\<close>; \<open>OtherException\<close> is any exception outside that family.
\<close>

record request =
  req_url :: string
  req_authorization :: string
  req_start_date :: string
  req_end_date :: string

datatype 'f response = Body "'f json" | RequestException string | OtherException string

type_synonym 'f http = "request \<Rightarrow> 'f response"

text \<open>
  What a call did: the requests sent so far, in order, and its value, its
  RequestException or another exception.
\<close>

datatype 'a raised = Returned 'a | RaisedRequest string | RaisedOther py_error

type_synonym 'a io = "request list \<Rightarrow> 'a raised \<times> request list"

definition io_bind :: "'a io \<Rightarrow> ('a \<Rightarrow> 'b io) \<Rightarrow> 'b io" where
  "io_bind m f = (\<lambda>log.
     case m log of
       (Returned x, log') \<Rightarrow> f x log'
     | (RaisedRequest e, log') \<Rightarrow> (RaisedRequest e, log')
     | (RaisedOther e, log') \<Rightarrow> (RaisedOther e, log'))"

definition io_return :: "'a \<Rightarrow> 'a io" where
  "io_return x = (\<lambda>log. (Returned x, log))"

definition io_raise :: "py_error \<Rightarrow> 'a io" where
  "io_raise e = (\<lambda>log. (RaisedOther e, log))"

definition BASE_URL :: string where
  "BASE_URL = ''https://api.ouraring.com''"

text \<open>
  \<^verbatim>\<open>
  def _make_request(self, endpoint, params):
      url = f"{self.BASE_URL}/{endpoint}"
      response = requests.get(url, headers=self.headers, params=params)
      response.raise_for_status()
      return response.json()
  \<close>
\<close>

definition make_request ::
  "'f http \<Rightarrow> string \<Rightarrow> string \<Rightarrow> string \<Rightarrow> string \<Rightarrow> 'f json io" where
  "make_request http access_token endpoint start_date end_date = (\<lambda>log.
     let rq = \<lparr> req_url = BASE_URL @ ''/'' @ endpoint,
                req_authorization = ''Bearer '' @ access_token,
                req_start_date = start_date, req_end_date = end_date \<rparr>
     in (case http rq of
           Body j \<Rightarrow> Returned j
         | RequestException e \<Rightarrow> RaisedRequest e
         | OtherException e \<Rightarrow> RaisedOther (Propagated e),
         log @ [rq]))"

definition get_daily_sleep :: "'f http \<Rightarrow> string \<Rightarrow> string \<Rightarrow> string \<Rightarrow> 'f json io" where
  "get_daily_sleep http tok start_date end_date =
     make_request http tok ''v2/usercollection/daily_sleep'' start_date end_date"

definition get_sleep_periods :: "'f http \<Rightarrow> string \<Rightarrow> string \<Rightarrow> string \<Rightarrow> 'f json io" where
  "get_sleep_periods http tok start_date end_date =
     make_request http tok ''v2/usercollection/sleep'' start_date end_date"

definition get_daily_activity :: "'f http \<Rightarrow> string \<Rightarrow> string \<Rightarrow> string \<Rightarrow> 'f json io" where
  "get_daily_activity http tok start_date end_date =
     make_request http tok ''v2/usercollection/daily_activity'' start_date end_date"

definition get_daily_readiness :: "'f http \<Rightarrow> string \<Rightarrow> string \<Rightarrow> string \<Rightarrow> 'f json io" where
  "get_daily_readiness http tok start_date end_date =
     make_request http tok ''v2/usercollection/daily_readiness'' start_date end_date"

definition get_daily_stress :: "'f http \<Rightarrow> string \<Rightarrow> string \<Rightarrow> string \<Rightarrow> 'f json io" where
  "get_daily_stress http tok start_date end_date =
     make_request http tok ''v2/usercollection/daily_stress'' start_date end_date"

definition get_workouts :: "'f http \<Rightarrow> string \<Rightarrow> string \<Rightarrow> string \<Rightarrow> 'f json io" where
  "get_workouts http tok start_date end_date =
     make_request http tok ''v2/usercollection/workout'' start_date end_date"

definition get_sleep_time :: "'f http \<Rightarrow> string \<Rightarrow> string \<Rightarrow> string \<Rightarrow> 'f json io" where
  "get_sleep_time http tok start_date end_date =
     make_request http tok ''v2/usercollection/sleep_time'' start_date end_date"

subsection \<open>\<^verbatim>\<open>get_todays_data\<close>\<close>

text \<open>\<^verbatim>\<open>data[key] = v\<close> on a dict: an existing key keeps its place.\<close>

fun dict_set :: "(string \<times> 'v) list \<Rightarrow> string \<Rightarrow> 'v \<Rightarrow> (string \<times> 'v) list" where
  "dict_set [] key v = [(key, v)]"
| "dict_set ((k, w) # kvs) key v =
     (if k = key then (k, v) # kvs else (k, w) # dict_set kvs key v)"

definition error_marker :: "string \<Rightarrow> 'f json" where
  "error_marker reason = JDict [(''error'', JStr reason)]"

text \<open>
  \<^verbatim>\<open>
  try:
      data[slot] = self.get_...(start, end)
  except requests.exceptions.RequestException as e:
      data[slot] = {"error": str(e)}
  \<close>
\<close>

definition try_fetch ::
  "string \<Rightarrow> 'f json io \<Rightarrow> (string \<times> 'f json) list \<Rightarrow> (string \<times> 'f json) list io" where
  "try_fetch slot fetch data = (\<lambda>log.
     case fetch log of
       (Returned j, log') \<Rightarrow> (Returned (dict_set data slot j), log')
     | (RaisedRequest e, log') \<Rightarrow> (Returned (dict_set data slot (error_marker e)), log')
     | (RaisedOther e, log') \<Rightarrow> (RaisedOther e, log'))"

text \<open>
  \<^verbatim>\<open>datetime.now()\<close> is read four times, for \<^verbatim>\<open>yesterday\<close>, \<^verbatim>\<open>today\<close>,
  \<^verbatim>\<open>tomorrow\<close> and \<^verbatim>\<open>fetched_at\<close>: the four readings are the arguments \<open>now1\<close> to
  \<open>now4\<close>, in that order.
\<close>

definition lift_err :: "py_error + 'a \<Rightarrow> 'a io" where
  "lift_err r = (case r of Inl e \<Rightarrow> io_raise e | Inr x \<Rightarrow> io_return x)"

definition get_todays_data ::
  "'f pylib \<Rightarrow> 'f http \<Rightarrow> string \<Rightarrow> datetime \<Rightarrow> datetime \<Rightarrow> datetime \<Rightarrow> datetime
     \<Rightarrow> 'f json io" where
  "get_todays_data lib http tok now1 now2 now3 now4 =
     io_bind (lift_err (day_before (dt_date now1))) (\<lambda>d1.
     io_bind (lift_err (day_after (dt_date now3))) (\<lambda>d3.
       let yesterday = strftime_ymd lib d1;
           today = strftime_ymd lib (dt_date now2);
           tomorrow = strftime_ymd lib d3;
           data = [(''date'', JStr today),
                   (''activity_date'', JStr yesterday),
                   (''fetched_at'', JStr (isoformat lib now4)),
                   (''daily_sleep'', JNull),
                   (''sleep_periods'', JNull),
                   (''daily_activity'', JNull),
                   (''daily_readiness'', JNull),
                   (''daily_stress'', JNull),
                   (''workouts'', JNull),
                   (''sleep_time'', JNull)]
       in
       io_bind (try_fetch ''daily_sleep'' (get_daily_sleep http tok today tomorrow) data) (\<lambda>data.
       io_bind (try_fetch ''sleep_periods'' (get_sleep_periods http tok today tomorrow) data) (\<lambda>data.
       io_bind (try_fetch ''daily_readiness'' (get_daily_readiness http tok today tomorrow) data) (\<lambda>data.
       io_bind (try_fetch ''daily_activity'' (get_daily_activity http tok yesterday today) data) (\<lambda>data.
       io_bind (try_fetch ''daily_stress'' (get_daily_stress http tok yesterday today) data) (\<lambda>data.
       io_bind (try_fetch ''workouts'' (get_workouts http tok yesterday today) data) (\<lambda>data.
       io_bind (try_fetch ''sleep_time'' (get_sleep_time http tok yesterday today) data) (\<lambda>data.
         io_return (JDict data))))))))))"

section \<open>main.py\<close>

record config =
  cfg_oura_token :: string
  cfg_smtp_server :: string
  cfg_smtp_port :: int
  cfg_sender_email :: string
  cfg_sender_password :: string
  cfg_recipient_email :: string
  cfg_schedule_time :: string

text \<open>
  The environment after \<^verbatim>\<open>load_dotenv()\<close>: \<^verbatim>\<open>os.getenv(name)\<close> is \<open>env name\<close>, and
  \<^verbatim>\<open>os.getenv(name, default)\<close> is \<open>getenv_default\<close>. A value is false (\<^verbatim>\<open>not value\<close>)
  when the variable is unset or set to the empty string.
\<close>

definition getenv_default :: "(string \<Rightarrow> string option) \<Rightarrow> string \<Rightarrow> string \<Rightarrow> string" where
  "getenv_default env name dflt = (case env name of Some v \<Rightarrow> v | None \<Rightarrow> dflt)"

definition env_false :: "(string \<Rightarrow> string option) \<Rightarrow> string \<Rightarrow> bool" where
  "env_false env name = (case env name of None \<Rightarrow> True | Some v \<Rightarrow> v = [])"

text \<open>The list \<^verbatim>\<open>missing\<close> of lines 34 to 40.\<close>

definition missing_vars :: "(string \<Rightarrow> string option) \<Rightarrow> string list" where
  "missing_vars env =
     (if env_false env ''OURA_ACCESS_TOKEN'' then [''OURA_ACCESS_TOKEN''] else []) @
     (if env_false env ''SENDER_EMAIL'' then [''SENDER_EMAIL''] else []) @
     (if env_false env ''SENDER_PASSWORD'' then [''SENDER_PASSWORD''] else [])"

text \<open>How a call of \<^verbatim>\<open>load_config\<close> ends: it returns, raises, or leaves the process.\<close>

datatype 'a ending = Value 'a | Raised py_error | SystemExit int

text \<open>
  \<^verbatim>\<open>load_config\<close>: what it printed, and how it ended. The dict \<^verbatim>\<open>config\<close> is built
  first, and \<^verbatim>\<open>int(os.getenv("SMTP_PORT", "587"))\<close> is part of that; the validation of
  the three required variables comes after it.
\<close>

definition load_config ::
  "'f pylib \<Rightarrow> (string \<Rightarrow> string option) \<Rightarrow> string list \<times> config ending" where
  "load_config lib env =
     (case int_of_str lib (getenv_default env ''SMTP_PORT'' ''587'') of
        None \<Rightarrow> ([], Raised ValueError)
      | Some port \<Rightarrow>
          let missing = missing_vars env in
          if missing \<noteq> [] then
            ([''Error: Missing required environment variables: '' @ join '', '' missing,
              ''Please update your .env file''],
             SystemExit 1)
          else
            ([], Value
               \<lparr> cfg_oura_token = getenv_default env ''OURA_ACCESS_TOKEN'' [],
                 cfg_smtp_server = getenv_default env ''SMTP_SERVER'' ''smtp.gmail.com'',
                 cfg_smtp_port = port,
                 cfg_sender_email = getenv_default env ''SENDER_EMAIL'' [],
                 cfg_sender_password = getenv_default env ''SENDER_PASSWORD'' [],
                 cfg_recipient_email =
                   getenv_default env ''RECIPIENT_EMAIL'' ''cooperpenniman@gmail.com'',
                 cfg_schedule_time = getenv_default env ''SCHEDULE_TIME'' ''10:00'' \<rparr>))"

text \<open>
  \<^verbatim>\<open>send_daily_report\<close>: the client and the mail service are built from the
  configuration (\<^verbatim>\<open>use_tls\<close> keeps its default \<^verbatim>\<open>True\<close>), the data is fetched, the
  mail is sent and the result of \<^verbatim>\<open>send_oura_data\<close> is returned. The progress lines it
  prints are left out: they change neither the requests nor the result.
\<close>

definition send_daily_report ::
  "'f pylib \<Rightarrow> 'f http \<Rightarrow> transport \<Rightarrow> config
     \<Rightarrow> datetime \<Rightarrow> datetime \<Rightarrow> datetime \<Rightarrow> datetime \<Rightarrow> bool io" where
  "send_daily_report lib http transport config now1 now2 now3 now4 =
     io_bind (get_todays_data lib http (cfg_oura_token config) now1 now2 now3 now4) (\<lambda>data.
       lift_err
         (send_oura_data lib transport
            \<lparr> smtp_server = cfg_smtp_server config, smtp_port = cfg_smtp_port config,
              sender_email = cfg_sender_email config,
              sender_password = cfg_sender_password config, use_tls = True \<rparr>
            (cfg_recipient_email config) data))"

definition run_once ::
  "'f pylib \<Rightarrow> 'f http \<Rightarrow> transport \<Rightarrow> config
     \<Rightarrow> datetime \<Rightarrow> datetime \<Rightarrow> datetime \<Rightarrow> datetime \<Rightarrow> bool io" where
  "run_once lib http transport config now1 now2 now3 now4 =
     send_daily_report lib http transport config now1 now2 now3 now4"

section \<open>A library instance for concrete evaluations\<close>

text \<open>
  The theorems below hold for every library record. Where a theorem is evaluated at a
  concrete input, the library is \<open>reference_lib\<close>: it has no floats (the float type is
  \<open>unit\<close>), and it gives CPython's answers on the arguments those evaluations pass to it:
  decimal strings without sign for \<^verbatim>\<open>int\<close>, \<^verbatim>\<open>repr\<close> of a string without quotes,
  backslashes or control characters, small ints for \<^verbatim>\<open>format(i, "+.2f")\<close>, dates of
  four-digit years for \<^verbatim>\<open>strftime\<close>, and the timestamps and dates listed in its two tables.
\<close>

definition pad2 :: "nat \<Rightarrow> string" where
  "pad2 n = (if n < 10 then ''0'' @ nat_digits n else nat_digits n)"

definition iso_date :: "date \<Rightarrow> string" where
  "iso_date d = nat_digits (year d) @ ''-'' @ pad2 (month d) @ ''-'' @ pad2 (day d)"

definition iso_datetime :: "datetime \<Rightarrow> string" where
  "iso_datetime t =
     (let s = dt_micros t div 1000000 in
      iso_date (dt_date t) @ ''T'' @ pad2 (s div 3600) @ '':'' @ pad2 (s mod 3600 div 60)
        @ '':'' @ pad2 (s mod 60))"

definition decimal_value :: "string \<Rightarrow> int option" where
  "decimal_value s =
     (if s \<noteq> [] \<and> list_all (\<lambda>c. c \<in> set ''0123456789'') s
      then Some (foldl (\<lambda>n c. 10 * n + int (of_char c) - 48) 0 s)
      else None)"

definition reference_lib :: "unit pylib" where
  "reference_lib =
     \<lparr> float_str = (\<lambda>_. ''nan''),
       float_fmt_sign2 = (\<lambda>_. ''+nan''),
       float_floordiv = (\<lambda>x _. x),
       float_mod = (\<lambda>x _. x),
       float_gt_zero = (\<lambda>_. False),
       float_truthy = (\<lambda>_. True),
       int_fmt_sign2 = (\<lambda>i. Some ((if i < 0 then ''-'' else ''+'') @ nat_digits (nat \<bar>i\<bar>) @ ''.00'')),
       str_repr = (\<lambda>s. [CHR 0x27] @ s @ [CHR 0x27]),
       fromisoformat_12h = map_of
         [(''2024-12-27T02:01:00+00:00'', ''2:01 AM''),
          (''2024-12-27T09:41:00+00:00'', ''9:41 AM'')],
       strptime_short = map_of
         [(''2024-12-26'', ''Dec 26''),
          (''2024-12-27'', ''Dec 27''),
          (''2024-12-31'', ''Dec 31''),
          (''2025-01-01'', ''Jan 1'')],
       strftime_ymd = iso_date,
       isoformat = iso_datetime,
       int_of_str = decimal_value \<rparr>"

section \<open>Shapes of payloads\<close>

text \<open>
  The predicates the theorems use to say what a payload looks like. A record is a dict; a
  period is tagged when its \<^verbatim>\<open>type\<close> is \<^verbatim>\<open>"long_sleep"\<close>.
\<close>

definition is_dict :: "'f json \<Rightarrow> bool" where
  "is_dict v = (case v of JDict _ \<Rightarrow> True | _ \<Rightarrow> False)"

definition tagged_long_sleep :: "'f json \<Rightarrow> bool" where
  "tagged_long_sleep p =
     (case p of JDict kvs \<Rightarrow> map_of kvs ''type'' = Some (JStr ''long_sleep'') | _ \<Rightarrow> False)"


text \<open>
  A payload of the documented shape: each category slot the formatter reads is a dict
  (an API response or an error marker) whose \<^verbatim>\<open>data\<close> is absent, null or a list of
  records; a duration or latency field is absent, null or a number; \<^verbatim>\<open>contributors\<close> is
  absent or a dict; an int \<^verbatim>\<open>temperature_deviation\<close> is one \<^verbatim>\<open>format(i, "+.2f")\<close>
  accepts.
\<close>

definition number_or_null :: "'f json \<Rightarrow> bool" where
  "number_or_null v =
     (case v of
        JNull \<Rightarrow> True
      | JBool _ \<Rightarrow> True
      | JInt _ \<Rightarrow> True
      | JFloat _ \<Rightarrow> True
      | _ \<Rightarrow> False)"

definition field_ok :: "(string \<times> 'f json) list \<Rightarrow> ('f json \<Rightarrow> bool) \<Rightarrow> string \<Rightarrow> bool" where
  "field_ok kvs P key = (case map_of kvs key of None \<Rightarrow> True | Some v \<Rightarrow> P v)"

definition record_ok :: "string list \<Rightarrow> 'f json \<Rightarrow> bool" where
  "record_ok numbers v =
     (case v of JDict kvs \<Rightarrow> list_all (field_ok kvs number_or_null) numbers | _ \<Rightarrow> False)"

definition period_ok :: "'f json \<Rightarrow> bool" where
  "period_ok = record_ok [''time_in_bed'', ''total_sleep_duration'', ''latency'',
                          ''deep_sleep_duration'', ''rem_sleep_duration'',
                          ''light_sleep_duration'']"

definition activity_ok :: "'f json \<Rightarrow> bool" where
  "activity_ok = record_ok [''low_activity_time'', ''medium_activity_time'',
                            ''high_activity_time'']"

definition stress_ok :: "'f json \<Rightarrow> bool" where
  "stress_ok = record_ok [''recovery_high'', ''stress_high'']"

definition workout_ok :: "'f json \<Rightarrow> bool" where
  "workout_ok = record_ok [''duration'']"

definition sleep_ok :: "'f json \<Rightarrow> bool" where
  "sleep_ok v = (case v of JDict kvs \<Rightarrow> field_ok kvs is_dict ''contributors'' | _ \<Rightarrow> False)"

definition temp_ok :: "'f pylib \<Rightarrow> 'f json \<Rightarrow> bool" where
  "temp_ok lib t =
     (case t of
        JInt i \<Rightarrow> int_fmt_sign2 lib i \<noteq> None
      | JBool b \<Rightarrow> int_fmt_sign2 lib (if b then 1 else 0) \<noteq> None
      | _ \<Rightarrow> True)"

definition readiness_ok :: "'f pylib \<Rightarrow> 'f json \<Rightarrow> bool" where
  "readiness_ok lib v =
     (case v of
        JDict kvs \<Rightarrow>
          field_ok kvs is_dict ''contributors''
          \<and> field_ok kvs (temp_ok lib) ''temperature_deviation''
      | _ \<Rightarrow> False)"

definition data_ok :: "('f json \<Rightarrow> bool) \<Rightarrow> 'f json \<Rightarrow> bool" where
  "data_ok rec_ok v =
     (case v of JNull \<Rightarrow> True | JList rs \<Rightarrow> list_all rec_ok rs | _ \<Rightarrow> False)"

definition slot_ok :: "('f json \<Rightarrow> bool) \<Rightarrow> 'f json \<Rightarrow> bool" where
  "slot_ok rec_ok slot =
     (case slot of JDict kvs \<Rightarrow> field_ok kvs (data_ok rec_ok) ''data'' | _ \<Rightarrow> False)"

definition wf_payload :: "'f pylib \<Rightarrow> 'f json \<Rightarrow> bool" where
  "wf_payload lib oura_data =
     (case oura_data of
        JDict kvs \<Rightarrow>
          field_ok kvs (slot_ok sleep_ok) ''daily_sleep''
          \<and> field_ok kvs (slot_ok period_ok) ''sleep_periods''
          \<and> field_ok kvs (slot_ok activity_ok) ''daily_activity''
          \<and> field_ok kvs (slot_ok (readiness_ok lib)) ''daily_readiness''
          \<and> field_ok kvs (slot_ok stress_ok) ''daily_stress''
          \<and> field_ok kvs (slot_ok workout_ok) ''workouts''
      | _ \<Rightarrow> False)"

section \<open>Day numbers\<close>

text \<open>
  The day number of a date, as \<^verbatim>\<open>date.toordinal()\<close> counts it: 1 for the first of January
  of year 1, and one more for every day after it. ``One day before'' and ``one day
  after'' a date are stated with it.
\<close>

definition days_before_year :: "nat \<Rightarrow> nat" where
  "days_before_year y = (y - 1) * 365 + (y - 1) div 4 - (y - 1) div 100 + (y - 1) div 400"

definition days_before_month :: "nat \<Rightarrow> nat \<Rightarrow> nat" where
  "days_before_month y m = sum_list (map (days_in_month y) [1..<m])"

definition ordinal :: "date \<Rightarrow> nat" where
  "ordinal d = days_before_year (year d) + days_before_month (year d) (month d) + day d"

section \<open>The requests of one run\<close>

text \<open>
  The seven categories with the slot each fills and the request each sends: sleep, sleep
  periods and readiness over the window from today to tomorrow; activity, stress,
  workouts and sleep time over the window from yesterday to today. \<open>run_plan\<close> sends the
  requests of such a list in order and stores each answer in its slot: the body, or the
  error marker when the request raised a RequestException; another exception ends the run.
\<close>

text \<open>What a slot holds after its request: the body, or the marker with the reason.\<close>

definition stored :: "'f response \<Rightarrow> 'f json" where
  "stored resp =
     (case resp of
        Body j \<Rightarrow> j
      | RequestException reason \<Rightarrow> error_marker reason
      | OtherException _ \<Rightarrow> JNull)"

definition is_other :: "'f response \<Rightarrow> bool" where
  "is_other resp = (case resp of OtherException _ \<Rightarrow> True | _ \<Rightarrow> False)"

definition other_reason :: "'f response \<Rightarrow> string" where
  "other_reason resp = (case resp of OtherException x \<Rightarrow> x | _ \<Rightarrow> [])"

definition category_request :: "string \<Rightarrow> string \<Rightarrow> string \<Rightarrow> string \<Rightarrow> request" where
  "category_request tok endpoint start_date end_date =
     \<lparr> req_url = ''https://api.ouraring.com/v2/usercollection/'' @ endpoint,
       req_authorization = ''Bearer '' @ tok,
       req_start_date = start_date, req_end_date = end_date \<rparr>"

definition category_requests ::
  "string \<Rightarrow> string \<Rightarrow> string \<Rightarrow> string \<Rightarrow> (string \<times> request) list" where
  "category_requests tok yesterday today tomorrow =
     [(''daily_sleep'', category_request tok ''daily_sleep'' today tomorrow),
      (''sleep_periods'', category_request tok ''sleep'' today tomorrow),
      (''daily_readiness'', category_request tok ''daily_readiness'' today tomorrow),
      (''daily_activity'', category_request tok ''daily_activity'' yesterday today),
      (''daily_stress'', category_request tok ''daily_stress'' yesterday today),
      (''workouts'', category_request tok ''workout'' yesterday today),
      (''sleep_time'', category_request tok ''sleep_time'' yesterday today)]"

fun run_plan ::
  "'f http \<Rightarrow> (string \<times> request) list \<Rightarrow> (string \<times> 'f json) list \<Rightarrow> 'f json io" where
  "run_plan http [] data log = (Returned (JDict data), log)"
| "run_plan http ((slot, rq) # rest) data log =
     (if is_other (http rq)
      then (RaisedOther (Propagated (other_reason (http rq))), log @ [rq])
      else run_plan http rest (dict_set data slot (stored (http rq))) (log @ [rq]))"

fun store_all ::
  "'f http \<Rightarrow> (string \<times> request) list \<Rightarrow> (string \<times> 'f json) list \<Rightarrow> (string \<times> 'f json) list" where
  "store_all http [] data = data"
| "store_all http ((slot, rq) # rest) data =
     store_all http rest (dict_set data slot (stored (http rq)))"

definition initial_data :: "string \<Rightarrow> string \<Rightarrow> string \<Rightarrow> (string \<times> 'f json) list" where
  "initial_data today yesterday fetched_at =
     [(''date'', JStr today),
      (''activity_date'', JStr yesterday),
      (''fetched_at'', JStr fetched_at),
      (''daily_sleep'', JNull),
      (''sleep_periods'', JNull),
      (''daily_activity'', JNull),
      (''daily_readiness'', JNull),
      (''daily_stress'', JNull),
      (''workouts'', JNull),
      (''sleep_time'', JNull)]"

section \<open>Example values\<close>

text \<open>A rest period and an overnight sleep, as the sleep endpoint returns them.\<close>

definition rest_period :: "unit json" where
  "rest_period = JDict [(''type'', JStr ''rest''), (''time_in_bed'', JInt 1800)]"

definition night_period :: "unit json" where
  "night_period =
     JDict [(''type'', JStr ''long_sleep''),
            (''bedtime_start'', JStr ''2024-12-27T02:01:00Z''),
            (''bedtime_end'', JStr ''2024-12-27T09:41:00Z''),
            (''time_in_bed'', JInt 27600), (''total_sleep_duration'', JInt 24300),
            (''latency'', JInt 300), (''deep_sleep_duration'', JInt 5400),
            (''rem_sleep_duration'', JInt 6300), (''light_sleep_duration'', JInt 12600),
            (''average_heart_rate'', JInt 52), (''lowest_heart_rate'', JInt 47),
            (''average_hrv'', JInt 61), (''restless_periods'', JInt 12)]"

text \<open>
  A payload as \<^verbatim>\<open>get_todays_data\<close> builds it when the activity request was refused
  with status 429 and the other requests were answered.
\<close>

definition outage_payload :: "(string \<times> unit json) list" where
  "outage_payload =
     [(''date'', JStr ''2024-12-27''),
      (''activity_date'', JStr ''2024-12-26''),
      (''fetched_at'', JStr ''2024-12-27T10:00:03''),
      (''daily_sleep'', JDict [(''data'', JList
         [JDict [(''score'', JInt 82),
                 (''contributors'', JDict [(''deep_sleep'', JInt 90), (''timing'', JInt 71)])]])]),
      (''sleep_periods'', JDict [(''data'', JList [rest_period, night_period])]),
      (''daily_activity'', JDict [(''error'', JStr ''429 Client Error: Too Many Requests'')]),
      (''daily_readiness'', JDict [(''data'', JList
         [JDict [(''score'', JInt 77), (''temperature_deviation'', JInt 1)]])]),
      (''daily_stress'', JDict [(''data'', JList
         [JDict [(''day_summary'', JStr ''restored''), (''recovery_high'', JInt 5400),
                 (''stress_high'', JInt 0)]])]),
      (''workouts'', JDict [(''data'', JList
         [JDict [(''activity'', JStr ''running''), (''calories'', JInt 300),
                 (''duration'', JInt 1860)]])]),
      (''sleep_time'', JDict [(''data'', JList [])])]"

text \<open>The report for it.\<close>

definition outage_report :: string where
  "outage_report = concat
     [''Oura Daily Report '', em_dash, '' 2024-12-27\<newline>'',
      ''\<newline>'',
      ''SCORES\<newline>'',
      ''  Sleep: 82 | Activity: N/A | Readiness: 77\<newline>'',
      ''\<newline>'',
      ''SLEEP (Dec 27)\<newline>'',
      ''  Bedtime: 2:01 AM '', right_arrow, '' 9:41 AM (7h 40m in bed)\<newline>'',
      ''  Total sleep: 6h 45m\<newline>'',
      ''  Latency: 5 min\<newline>'',
      ''  \<newline>'',
      ''  Stages:\<newline>'',
      ''    Deep: 1h 30m (score: 90)\<newline>'',
      ''    REM: 1h 45m (score: N/A)\<newline>'',
      ''    Light: 3h 30m\<newline>'',
      ''  \<newline>'',
      ''  Contributors:\<newline>'',
      ''    Timing: 71 | Efficiency: N/A | Restfulness: N/A\<newline>'',
      ''    Latency: N/A | Total: N/A\<newline>'',
      ''  \<newline>'',
      ''  Physiology:\<newline>'',
      ''    Avg HR: 52 bpm | Lowest: 47 bpm\<newline>'',
      ''    Avg HRV: 61 ms\<newline>'',
      ''    Avg breath: N/A/min\<newline>'',
      ''    Restless periods: 12\<newline>'',
      ''\<newline>'',
      ''READINESS\<newline>'',
      ''  Score: 77\<newline>'',
      ''  Temp deviation: +1.00'', degree_sign, ''C\<newline>'',
      ''  Contributors:\<newline>'',
      ''    HRV balance: N/A | Sleep balance: N/A\<newline>'',
      ''    Previous night: N/A | Recovery index: N/A\<newline>'',
      ''\<newline>'',
      ''ACTIVITY (Dec 26)\<newline>'',
      ''  Steps: N/A\<newline>'',
      ''  Active calories: N/A\<newline>'',
      ''  Low activity: 0m | Medium: 0m | High: 0m\<newline>'',
      ''\<newline>'',
      ''STRESS (Dec 26)\<newline>'',
      ''  Day summary: restored\<newline>'',
      ''  Recovery time: 1h 30m | Stress time: 0m\<newline>'',
      ''\<newline>'',
      ''WORKOUTS\<newline>'',
      ''  running: 31m, 300 cal\<newline>'']"

text \<open>Payloads with a null where the API documents a value.\<close>

definition null_contributors_payload :: "unit json" where
  "null_contributors_payload =
     JDict [(''date'', JStr ''2024-12-27''),
            (''daily_sleep'', JDict [(''data'', JList
               [JDict [(''score'', JInt 82), (''contributors'', JNull)]])])]"

definition null_score_payload :: "unit json" where
  "null_score_payload =
     JDict [(''date'', JStr ''2024-12-27''),
            (''daily_sleep'', JDict [(''data'', JList [JDict [(''score'', JNull)]])])]"

definition null_score_report :: string where
  "null_score_report = concat
     [''Oura Daily Report '', em_dash, '' 2024-12-27\<newline>'',
      ''\<newline>'',
      ''SCORES\<newline>'',
      ''  Sleep: None | Activity: N/A | Readiness: N/A\<newline>'',
      ''\<newline>'',
      ''SLEEP (Dec 27)\<newline>'',
      ''  Bedtime: N/A '', right_arrow, '' N/A (0m in bed)\<newline>'',
      ''  Total sleep: 0m\<newline>'',
      ''  Latency: 0 min\<newline>'',
      ''  \<newline>'',
      ''  Stages:\<newline>'',
      ''    Deep: 0m (score: N/A)\<newline>'',
      ''    REM: 0m (score: N/A)\<newline>'',
      ''    Light: 0m\<newline>'',
      ''  \<newline>'',
      ''  Contributors:\<newline>'',
      ''    Timing: N/A | Efficiency: N/A | Restfulness: N/A\<newline>'',
      ''    Latency: N/A | Total: N/A\<newline>'',
      ''  \<newline>'',
      ''  Physiology:\<newline>'',
      ''    Avg HR: N/A bpm | Lowest: N/A bpm\<newline>'',
      ''    Avg HRV: N/A ms\<newline>'',
      ''    Avg breath: N/A/min\<newline>'',
      ''    Restless periods: N/A\<newline>'',
      ''\<newline>'',
      ''READINESS\<newline>'',
      ''  Score: N/A\<newline>'',
      ''  Temp deviation: N/A\<newline>'',
      ''  Contributors:\<newline>'',
      ''    HRV balance: N/A | Sleep balance: N/A\<newline>'',
      ''    Previous night: N/A | Recovery index: N/A\<newline>'',
      ''\<newline>'',
      ''ACTIVITY (Dec 27)\<newline>'',
      ''  Steps: N/A\<newline>'',
      ''  Active calories: N/A\<newline>'',
      ''  Low activity: 0m | Medium: 0m | High: 0m\<newline>'',
      ''\<newline>'',
      ''STRESS (Dec 27)\<newline>'',
      ''  Day summary: N/A\<newline>'',
      ''  Recovery time: 0m | Stress time: 0m\<newline>'',
      ''\<newline>'',
      ''WORKOUTS\<newline>'',
      ''  None logged\<newline>'']"

text \<open>A payload whose workout name holds characters that are special in HTML, and its report.\<close>

definition markup_payload :: "unit json" where
  "markup_payload =
     JDict [(''date'', JStr ''2024-12-27''), (''activity_date'', JStr ''2024-12-26''),
            (''workouts'', JDict [(''data'', JList
               [JDict [(''activity'', JStr ''<b>run & walk</b>''), (''duration'', JInt 1860)]])])]"

definition markup_report :: string where
  "markup_report = concat
     [''Oura Daily Report '', em_dash, '' 2024-12-27\<newline>'',
      ''\<newline>'',
      ''SCORES\<newline>'',
      ''  Sleep: N/A | Activity: N/A | Readiness: N/A\<newline>'',
      ''\<newline>'',
      ''SLEEP (Dec 27)\<newline>'',
      ''  Bedtime: N/A '', right_arrow, '' N/A (0m in bed)\<newline>'',
      ''  Total sleep: 0m\<newline>'',
      ''  Latency: 0 min\<newline>'',
      ''  \<newline>'',
      ''  Stages:\<newline>'',
      ''    Deep: 0m (score: N/A)\<newline>'',
      ''    REM: 0m (score: N/A)\<newline>'',
      ''    Light: 0m\<newline>'',
      ''  \<newline>'',
      ''  Contributors:\<newline>'',
      ''    Timing: N/A | Efficiency: N/A | Restfulness: N/A\<newline>'',
      ''    Latency: N/A | Total: N/A\<newline>'',
      ''  \<newline>'',
      ''  Physiology:\<newline>'',
      ''    Avg HR: N/A bpm | Lowest: N/A bpm\<newline>'',
      ''    Avg HRV: N/A ms\<newline>'',
      ''    Avg breath: N/A/min\<newline>'',
      ''    Restless periods: N/A\<newline>'',
      ''\<newline>'',
      ''READINESS\<newline>'',
      ''  Score: N/A\<newline>'',
      ''  Temp deviation: N/A\<newline>'',
      ''  Contributors:\<newline>'',
      ''    HRV balance: N/A | Sleep balance: N/A\<newline>'',
      ''    Previous night: N/A | Recovery index: N/A\<newline>'',
      ''\<newline>'',
      ''ACTIVITY (Dec 26)\<newline>'',
      ''  Steps: N/A\<newline>'',
      ''  Active calories: N/A\<newline>'',
      ''  Low activity: 0m | Medium: 0m | High: 0m\<newline>'',
      ''\<newline>'',
      ''STRESS (Dec 26)\<newline>'',
      ''  Day summary: N/A\<newline>'',
      ''  Recovery time: 0m | Stress time: 0m\<newline>'',
      ''\<newline>'',
      ''WORKOUTS\<newline>'',
      ''  <b>run & walk</b>: 31m, N/A cal\<newline>'']"

text \<open>
  An HTTP collaborator that refuses the activity request with status 429 and answers
  the other six, and one that is offline; the morning of 27 December 2024 and the first
  morning of 2025.
\<close>

definition outage_http :: "unit http" where
  "outage_http rq =
     (if req_url rq = ''https://api.ouraring.com/v2/usercollection/daily_activity''
      then RequestException ''429 Client Error: Too Many Requests''
      else
        (case map_of
           [(''https://api.ouraring.com/v2/usercollection/daily_sleep'',
             JDict [(''data'', JList
               [JDict [(''score'', JInt 82),
                       (''contributors'',
                        JDict [(''deep_sleep'', JInt 90), (''timing'', JInt 71)])]])]),
            (''https://api.ouraring.com/v2/usercollection/sleep'',
             JDict [(''data'', JList [rest_period, night_period])]),
            (''https://api.ouraring.com/v2/usercollection/daily_readiness'',
             JDict [(''data'', JList
               [JDict [(''score'', JInt 77), (''temperature_deviation'', JInt 1)]])]),
            (''https://api.ouraring.com/v2/usercollection/daily_stress'',
             JDict [(''data'', JList
               [JDict [(''day_summary'', JStr ''restored''), (''recovery_high'', JInt 5400),
                       (''stress_high'', JInt 0)]])]),
            (''https://api.ouraring.com/v2/usercollection/workout'',
             JDict [(''data'', JList
               [JDict [(''activity'', JStr ''running''), (''calories'', JInt 300),
                       (''duration'', JInt 1860)]])]),
            (''https://api.ouraring.com/v2/usercollection/sleep_time'',
             JDict [(''data'', JList [])])]
           (req_url rq) of
           Some body \<Rightarrow> Body body
         | None \<Rightarrow> RequestException ''404 Client Error: Not Found''))"

definition offline_http :: "unit http" where
  "offline_http rq = RequestException ''Connection refused''"

definition morning :: datetime where
  "morning = \<lparr> dt_date = \<lparr> year = 2024, month = 12, day = 27 \<rparr>,
               dt_micros = 36003000000 \<rparr>"

definition new_year_morning :: datetime where
  "new_year_morning = \<lparr> dt_date = \<lparr> year = 2025, month = 1, day = 1 \<rparr>,
                        dt_micros = 36000000000 \<rparr>"

text \<open>The payload of a run on the first morning of 2025 with the API unreachable.\<close>

definition new_year_payload :: "(string \<times> unit json) list" where
  "new_year_payload =
     [(''date'', JStr ''2025-01-01''),
      (''activity_date'', JStr ''2024-12-31''),
      (''fetched_at'', JStr ''2025-01-01T10:00:00''),
      (''daily_sleep'', JDict [(''error'', JStr ''Connection refused'')]),
      (''sleep_periods'', JDict [(''error'', JStr ''Connection refused'')]),
      (''daily_activity'', JDict [(''error'', JStr ''Connection refused'')]),
      (''daily_readiness'', JDict [(''error'', JStr ''Connection refused'')]),
      (''daily_stress'', JDict [(''error'', JStr ''Connection refused'')]),
      (''workouts'', JDict [(''error'', JStr ''Connection refused'')]),
      (''sleep_time'', JDict [(''error'', JStr ''Connection refused'')])]"

text \<open>The URL and the window of a request.\<close>

definition window :: "request \<Rightarrow> string \<times> string \<times> string" where
  "window rq = (req_url rq, req_start_date rq, req_end_date rq)"

text \<open>
  Three environments: one with the three required variables, one where only the sender
  address is set, and one where nothing is set but a port that is not a number.
\<close>

definition full_env :: "string \<Rightarrow> string option" where
  "full_env = map_of [(''OURA_ACCESS_TOKEN'', ''token''),
                      (''SENDER_EMAIL'', ''ring@example.org''),
                      (''SENDER_PASSWORD'', ''secret'')]"

definition sender_only_env :: "string \<Rightarrow> string option" where
  "sender_only_env = map_of [(''SENDER_EMAIL'', ''ring@example.org''),
                             (''SENDER_PASSWORD'', [])]"

definition bad_port_env :: "string \<Rightarrow> string option" where
  "bad_port_env = map_of [(''SMTP_PORT'', ''abc'')]"

definition full_config :: config where
  "full_config =
     \<lparr> cfg_oura_token = ''token'', cfg_smtp_server = ''smtp.gmail.com'',
       cfg_smtp_port = 587, cfg_sender_email = ''ring@example.org'',
       cfg_sender_password = ''secret'',
       cfg_recipient_email = ''cooperpenniman@gmail.com'',
       cfg_schedule_time = ''10:00'' \<rparr>"

section \<open>Basic facts\<close>

lemma bind_err_Inl [simp]: "bind_err (Inl e) f = Inl e"
  by (simp add: bind_err_def)

lemma bind_err_Inr [simp]: "bind_err (Inr x) f = f x"
  by (simp add: bind_err_def)

lemma py_str_JInt [simp]: "py_str lib (JInt i) = str_int i"
  by (simp add: py_str_def)

lemma py_str_JStr [simp]: "py_str lib (JStr s) = s"
  by (simp add: py_str_def)

lemma bind_err_eq_Inr: "bind_err m f = Inr y \<longleftrightarrow> (\<exists>x. m = Inr x \<and> f x = Inr y)"
  by (cases m) simp_all

lemma dict_get_JDict:
  "dict_get (JDict kvs) key dflt = Inr (case map_of kvs key of Some v \<Rightarrow> v | None \<Rightarrow> dflt)"
  by (simp add: dict_get_def)

section \<open>Durations\<close>

text \<open>
  Claim C3. \<^verbatim>\<open>format_duration\<close> renders a number of seconds \<open>s\<close> as hours and minutes,
  with \<open>hours = s // 3600\<close> and \<open>minutes = (s % 3600) // 60\<close>: as
  \<^verbatim>\<open>"{hours}h {minutes}m"\<close> when \<open>hours > 0\<close> and as \<^verbatim>\<open>"{minutes}m"\<close> otherwise. In
  particular zero seconds are \<^verbatim>\<open>"0m"\<close>, seven hours and forty minutes are \<^verbatim>\<open>"7h 40m"\<close>,
  and \<^verbatim>\<open>None\<close> is \<^verbatim>\<open>"N/A"\<close>.
\<close>

theorem format_duration_renders:
  "format_duration lib (JInt s) =
     Inr (if 0 < s div 3600
          then str_int (s div 3600) @ ''h '' @ str_int (s mod 3600 div 60) @ ''m''
          else str_int (s mod 3600 div 60) @ ''m'')
   \<and> format_duration lib (JInt 0) = Inr ''0m''
   \<and> format_duration lib (JInt (7 * 3600 + 40 * 60)) = Inr ''7h 40m''
   \<and> format_duration lib JNull = Inr ''N/A''"
  by (simp add: format_duration_def py_floordiv_def py_mod_def py_gt_zero_def
      str_int_def nat_digits.simps)

lemma format_duration_zero: "format_duration lib (JInt 0) = Inr ''0m''"
  by (simp add: format_duration_def py_floordiv_def py_mod_def py_gt_zero_def
      str_int_def nat_digits.simps)

section \<open>Selecting the sleep period\<close>





lemma tagged_truthy: "tagged_long_sleep p \<Longrightarrow> truthy lib p"
  by (auto simp: tagged_long_sleep_def truthy_def split: json.splits)

lemma select_period_data:
  assumes "map_of slot ''data'' = Some (JList ps)" and "ps \<noteq> []"
  shows "select_period lib (JDict slot) =
           bind_err (find_long_sleep ps) (\<lambda>found.
             let period_data = (case found of Some p \<Rightarrow> p | None \<Rightarrow> JDict []) in
             if truthy lib period_data then Inr period_data else Inr (hd ps))"
  using assms
  by (cases ps) (simp_all add: select_period_def dict_get_def subscript_key_def py_iter_def
      subscript0_def truthy_def Let_def cong: if_cong)




lemma duration_field_absent:
  "map_of kvs key = None \<Longrightarrow> duration_field lib (JDict kvs) key = Inr ''0m''"
  by (simp add: duration_field_def dict_get_JDict format_duration_zero)




section \<open>The formatter on payloads of the documented shape\<close>

lemma format_duration_number:
  "number_or_null v \<Longrightarrow> \<exists>s. format_duration lib v = Inr s"
  by (cases v) (simp_all add: number_or_null_def format_duration_def py_floordiv_def
      py_mod_def py_gt_zero_def)

lemma duration_field_ok:
  "field_ok kvs number_or_null key \<Longrightarrow> \<exists>s. duration_field lib (JDict kvs) key = Inr s"
  by (cases "map_of kvs key")
     (simp_all add: field_ok_def duration_field_def dict_get_JDict format_duration_zero
       format_duration_number)

lemma floordiv_number:
  "number_or_null v \<Longrightarrow> truthy lib v \<Longrightarrow> \<exists>w. py_floordiv lib v n = Inr w"
  by (cases v) (simp_all add: number_or_null_def py_floordiv_def truthy_def)

lemma first_record_ok:
  assumes "slot_ok P slot" and "P (JDict [])"
  shows "\<exists>r. first_record lib slot = Inr r \<and> P r"
proof -
  from assms(1) obtain kvs where slot: "slot = JDict kvs"
    and data: "field_ok kvs (data_ok P) ''data''"
    by (cases slot) (simp_all add: slot_ok_def)
  show ?thesis
  proof (cases "map_of kvs ''data''")
    case None
    with slot assms(2) show ?thesis
      by (simp add: first_record_def dict_get_JDict truthy_def)
  next
    case (Some d)
    with data have ok: "data_ok P d" by (simp add: field_ok_def)
    show ?thesis
    proof (cases d)
      case JNull
      with slot Some assms(2) show ?thesis
        by (simp add: first_record_def dict_get_JDict truthy_def)
    next
      case (JList rs)
      with slot Some ok assms(2) show ?thesis
        by (cases rs)
           (simp_all add: first_record_def dict_get_JDict truthy_def subscript0_def data_ok_def)
    qed (use ok in \<open>simp_all add: data_ok_def\<close>)
  qed
qed

lemma record_ok_field:
  "record_ok keys v \<Longrightarrow> key \<in> set keys \<Longrightarrow>
   \<exists>kvs. v = JDict kvs \<and> field_ok kvs number_or_null key"
  by (cases v) (auto simp: record_ok_def list_all_iff)

lemma record_ok_duration:
  assumes "record_ok keys (JDict kvs)" and "key \<in> set keys"
  shows "\<exists>s. duration_field lib (JDict kvs) key = Inr s"
  using record_ok_field [OF assms] duration_field_ok by blast

lemma record_ok_empty: "record_ok keys (JDict [])"
  by (simp add: record_ok_def field_ok_def list_all_iff)

lemma select_period_ok:
  assumes "slot_ok period_ok sp"
  shows "\<exists>p. select_period lib sp = Inr p \<and> period_ok p"
proof -
  have empty: "period_ok (JDict [])"
    by (simp add: period_ok_def record_ok_empty)
  from assms obtain kvs where sp: "sp = JDict kvs"
    and data: "field_ok kvs (data_ok period_ok) ''data''"
    by (cases sp) (simp_all add: slot_ok_def)
  show ?thesis
  proof (cases "map_of kvs ''data''")
    case None
    with sp empty show ?thesis
      by (simp add: select_period_def dict_get_JDict truthy_def)
  next
    case (Some d)
    with data have ok: "data_ok period_ok d" by (simp add: field_ok_def)
    show ?thesis
    proof (cases d)
      case JNull
      with sp Some empty show ?thesis
        by (simp add: select_period_def dict_get_JDict truthy_def)
    next
      case (JList rs)
      with ok have rs: "list_all period_ok rs" by (simp add: data_ok_def)
      show ?thesis
      proof (cases "rs = []")
        case True
        with sp Some JList empty show ?thesis
          by (simp add: select_period_def dict_get_JDict truthy_def)
      next
        case False
        from Some JList have m: "map_of kvs ''data'' = Some (JList rs)" by simp
        have found: "\<exists>f. find_long_sleep rs = Inr f \<and>
                       (case f of Some p \<Rightarrow> p \<in> set rs \<and> tagged_long_sleep p | None \<Rightarrow> True)"
          using rs
        proof (induction rs)
          case Nil
          then show ?case by simp
        next
          case (Cons q qs)
          then obtain qk where q: "q = JDict qk"
            by (cases q) (simp_all add: period_ok_def record_ok_def)
          from Cons show ?case
            by (auto simp: q dict_get_JDict tagged_long_sleep_def split: option.splits)
        qed
        then obtain f where f: "find_long_sleep rs = Inr f"
          and fp: "case f of Some p \<Rightarrow> p \<in> set rs \<and> tagged_long_sleep p | None \<Rightarrow> True"
          by blast
        show ?thesis
        proof (cases f)
          case None
          from False rs have "period_ok (hd rs)" by (cases rs) simp_all
          with None f sp show ?thesis
            by (simp add: select_period_data [OF m False] truthy_def)
        next
          case (Some p)
          with fp have "p \<in> set rs" and "tagged_long_sleep p" by simp_all
          with rs have "period_ok p" and "truthy lib p"
            by (simp_all add: list_all_iff tagged_truthy)
          with Some f sp show ?thesis
            by (simp add: select_period_data [OF m False])
        qed
      qed
    qed (use ok in \<open>simp_all add: data_ok_def\<close>)
  qed
qed

lemma period_details_ok:
  assumes "period_ok p"
  shows "\<exists>v. period_details lib p = Inr v"
proof -
  from assms obtain kvs where p: "p = JDict kvs"
    by (cases p) (simp_all add: period_ok_def record_ok_def)
  note ok = assms [unfolded p period_ok_def]
  obtain a where a: "duration_field lib (JDict kvs) ''time_in_bed'' = Inr a"
    using record_ok_duration [OF ok, of "''time_in_bed''"] by auto
  obtain b where b: "duration_field lib (JDict kvs) ''total_sleep_duration'' = Inr b"
    using record_ok_duration [OF ok, of "''total_sleep_duration''"] by auto
  obtain c where c: "duration_field lib (JDict kvs) ''deep_sleep_duration'' = Inr c"
    using record_ok_duration [OF ok, of "''deep_sleep_duration''"] by auto
  obtain d where d: "duration_field lib (JDict kvs) ''rem_sleep_duration'' = Inr d"
    using record_ok_duration [OF ok, of "''rem_sleep_duration''"] by auto
  obtain e where e: "duration_field lib (JDict kvs) ''light_sleep_duration'' = Inr e"
    using record_ok_duration [OF ok, of "''light_sleep_duration''"] by auto
  have "field_ok kvs number_or_null ''latency''"
    using record_ok_field [OF ok, of "''latency''"] by auto
  then have "\<exists>l. (if truthy lib (case map_of kvs ''latency'' of Some v \<Rightarrow> v | None \<Rightarrow> JInt 0)
                  then py_floordiv lib (case map_of kvs ''latency'' of Some v \<Rightarrow> v | None \<Rightarrow> JInt 0) 60
                  else Inr (JInt 0)) = Inr l"
    by (cases "map_of kvs ''latency''") (auto simp: field_ok_def truthy_def floordiv_number)
  then obtain l where l:
    "(if truthy lib (case map_of kvs ''latency'' of Some v \<Rightarrow> v | None \<Rightarrow> JInt 0)
      then py_floordiv lib (case map_of kvs ''latency'' of Some v \<Rightarrow> v | None \<Rightarrow> JInt 0) 60
      else Inr (JInt 0)) = Inr l"
    by blast
  show ?thesis
    unfolding p period_details_def
    by (simp add: a b c d e l dict_get_JDict)
qed

lemma activity_details_ok:
  assumes "activity_ok p"
  shows "\<exists>v. activity_details lib p = Inr v"
proof -
  from assms obtain kvs where p: "p = JDict kvs"
    by (cases p) (simp_all add: activity_ok_def record_ok_def)
  note ok = assms [unfolded p activity_ok_def]
  obtain a where a: "duration_field lib (JDict kvs) ''low_activity_time'' = Inr a"
    using record_ok_duration [OF ok, of "''low_activity_time''"] by auto
  obtain b where b: "duration_field lib (JDict kvs) ''medium_activity_time'' = Inr b"
    using record_ok_duration [OF ok, of "''medium_activity_time''"] by auto
  obtain c where c: "duration_field lib (JDict kvs) ''high_activity_time'' = Inr c"
    using record_ok_duration [OF ok, of "''high_activity_time''"] by auto
  show ?thesis
    unfolding p activity_details_def
    by (simp add: a b c dict_get_JDict)
qed

lemma truthy_duration_ok:
  assumes "field_ok kvs number_or_null key"
  shows "\<exists>s. (if truthy lib (case map_of kvs key of Some v \<Rightarrow> v | None \<Rightarrow> JInt 0)
              then format_duration lib (case map_of kvs key of Some v \<Rightarrow> v | None \<Rightarrow> JInt 0)
              else Inr ''0m'') = Inr s"
  using assms
  by (cases "map_of kvs key") (auto simp: field_ok_def truthy_def format_duration_number)

lemma stress_details_ok:
  assumes "stress_ok p"
  shows "\<exists>v. stress_details lib p = Inr v"
proof -
  from assms obtain kvs where p: "p = JDict kvs"
    by (cases p) (simp_all add: stress_ok_def record_ok_def)
  note ok = assms [unfolded p stress_ok_def]
  have "field_ok kvs number_or_null ''recovery_high''"
    using record_ok_field [OF ok, of "''recovery_high''"] by auto
  from truthy_duration_ok [OF this, of lib] obtain a where a:
    "(if truthy lib (case map_of kvs ''recovery_high'' of Some v \<Rightarrow> v | None \<Rightarrow> JInt 0)
      then format_duration lib (case map_of kvs ''recovery_high'' of Some v \<Rightarrow> v | None \<Rightarrow> JInt 0)
      else Inr ''0m'') = Inr a"
    by blast
  have "field_ok kvs number_or_null ''stress_high''"
    using record_ok_field [OF ok, of "''stress_high''"] by auto
  from truthy_duration_ok [OF this, of lib] obtain b where b:
    "(if truthy lib (case map_of kvs ''stress_high'' of Some v \<Rightarrow> v | None \<Rightarrow> JInt 0)
      then format_duration lib (case map_of kvs ''stress_high'' of Some v \<Rightarrow> v | None \<Rightarrow> JInt 0)
      else Inr ''0m'') = Inr b"
    by blast
  show ?thesis
    unfolding p stress_details_def
    by (simp add: a b dict_get_JDict)
qed

lemma temp_deviation_ok:
  assumes "field_ok kvs (temp_ok lib) ''temperature_deviation''"
  shows "\<exists>t. temp_deviation lib (JDict kvs) = Inr t"
proof (cases "map_of kvs ''temperature_deviation''")
  case None
  then show ?thesis by (simp add: temp_deviation_def dict_get_JDict)
next
  case (Some t)
  with assms have "temp_ok lib t" by (simp add: field_ok_def)
  with Some show ?thesis
    by (cases t) (auto simp: temp_deviation_def dict_get_JDict temp_ok_def)
qed

lemma sleep_contributors_dict: "\<exists>v. sleep_contributors (JDict kvs) = Inr v"
  by (simp add: sleep_contributors_def dict_get_JDict)

lemma readiness_contributors_dict: "\<exists>v. readiness_contributors (JDict kvs) = Inr v"
  by (simp add: readiness_contributors_def dict_get_JDict)

lemma contributors_dict:
  assumes "field_ok kvs is_dict ''contributors''"
  shows "\<exists>c. dict_get (JDict kvs) ''contributors'' (JDict []) = Inr (JDict c)"
proof (cases "map_of kvs ''contributors''")
  case None
  then show ?thesis by (simp add: dict_get_JDict)
next
  case (Some c)
  with assms have "is_dict c" by (simp add: field_ok_def)
  with Some show ?thesis by (cases c) (simp_all add: dict_get_JDict is_dict_def)
qed

lemma report_values_ok:
  assumes "sleep_ok (sleep_data r)" and "period_ok (period_data r)"
      and "activity_ok (activity_data r)" and "readiness_ok lib (readiness_data r)"
      and "stress_ok (stress_data r)"
  shows "\<exists>v. report_values lib r = Inr v"
proof -
  from assms(1) obtain sk where sk: "sleep_data r = JDict sk"
    and sc: "field_ok sk is_dict ''contributors''"
    by (cases "sleep_data r") (simp_all add: sleep_ok_def)
  from assms(3) obtain ak where ak: "activity_data r = JDict ak"
    by (cases "activity_data r") (simp_all add: activity_ok_def record_ok_def)
  from assms(4) obtain rk where rk: "readiness_data r = JDict rk"
    and rc: "field_ok rk is_dict ''contributors''"
    and rt: "field_ok rk (temp_ok lib) ''temperature_deviation''"
    by (cases "readiness_data r") (simp_all add: readiness_ok_def)
  from contributors_dict [OF sc] obtain c1 where c1:
    "dict_get (JDict sk) ''contributors'' (JDict []) = Inr (JDict c1)" by blast
  from contributors_dict [OF rc] obtain c2 where c2:
    "dict_get (JDict rk) ''contributors'' (JDict []) = Inr (JDict c2)" by blast
  from period_details_ok [OF assms(2), of lib] obtain pv where pv:
    "period_details lib (period_data r) = Inr pv" by blast
  from temp_deviation_ok [OF rt] obtain tv where tv:
    "temp_deviation lib (JDict rk) = Inr tv" by blast
  from activity_details_ok [OF assms(3), of lib] obtain av where av:
    "activity_details lib (activity_data r) = Inr av" by blast
  from stress_details_ok [OF assms(5), of lib] obtain sv where sv:
    "stress_details lib (stress_data r) = Inr sv" by blast
  from sleep_contributors_dict [of c1] obtain scv where scv:
    "sleep_contributors (JDict c1) = Inr scv" by blast
  from readiness_contributors_dict [of c2] obtain rcv where rcv:
    "readiness_contributors (JDict c2) = Inr rcv" by blast
  have s1: "\<exists>x. dict_get (JDict sk) ''score'' (JStr ''N/A'') = Inr x"
   and s2: "\<exists>x. dict_get (JDict ak) ''score'' (JStr ''N/A'') = Inr x"
   and s3: "\<exists>x. dict_get (JDict rk) ''score'' (JStr ''N/A'') = Inr x"
    by (simp_all add: dict_get_JDict)
  then obtain x1 x2 x3 where x:
    "dict_get (JDict sk) ''score'' (JStr ''N/A'') = Inr x1"
    "dict_get (JDict ak) ''score'' (JStr ''N/A'') = Inr x2"
    "dict_get (JDict rk) ''score'' (JStr ''N/A'') = Inr x3"
    by blast
  show ?thesis
    unfolding report_values_def
    using pv av sv
    by (simp add: sk ak rk x c1 c2 tv scv rcv)
qed

lemma workout_lines_ok:
  "list_all workout_ok ws \<Longrightarrow> \<exists>s. workout_lines lib ws = Inr s"
proof (induction ws)
  case Nil
  then show ?case by simp
next
  case (Cons w ws)
  then obtain rest where rest: "workout_lines lib ws = Inr rest" by auto
  from Cons.prems obtain kvs where w: "w = JDict kvs"
    by (cases w) (simp_all add: workout_ok_def record_ok_def)
  from Cons.prems have "record_ok [''duration''] (JDict kvs)"
    by (simp add: w workout_ok_def)
  from record_ok_duration [OF this, of "''duration''" lib] obtain d where
    d: "duration_field lib (JDict kvs) ''duration'' = Inr d" by auto
  show ?case by (simp add: w rest d dict_get_JDict)
qed

lemma workouts_section_ok:
  assumes "data_ok workout_ok wl"
  shows "\<exists>s. workouts_section lib wl = Inr s"
proof (cases wl)
  case JNull
  then show ?thesis by (simp add: workouts_section_def truthy_def)
next
  case (JList ws)
  with assms have "list_all workout_ok ws" by (simp add: data_ok_def)
  from workout_lines_ok [OF this, of lib] JList show ?thesis
    by (auto simp: workouts_section_def py_iter_def)
qed (use assms in \<open>simp_all add: data_ok_def\<close>)

lemma slot_ok_default:
  "field_ok kvs (slot_ok P) key \<Longrightarrow>
   slot_ok P (case map_of kvs key of Some v \<Rightarrow> v | None \<Rightarrow> JDict [])"
  by (cases "map_of kvs key") (simp_all add: field_ok_def slot_ok_def)

lemma workout_list_ok:
  assumes "slot_ok workout_ok w"
  shows "\<exists>wl. (if truthy lib w then dict_get w ''data'' (JList []) else Inr (JList [])) = Inr wl
              \<and> data_ok workout_ok wl"
proof -
  from assms obtain kvs where w: "w = JDict kvs"
    and data: "field_ok kvs (data_ok workout_ok) ''data''"
    by (cases w) (simp_all add: slot_ok_def)
  show ?thesis
    using data
    by (cases "map_of kvs ''data''") (simp_all add: w dict_get_JDict field_ok_def data_ok_def)
qed

lemma extract_records_ok:
  assumes "wf_payload lib oura_data"
  shows "\<exists>r. extract_records lib oura_data = Inr r
             \<and> sleep_ok (sleep_data r) \<and> period_ok (period_data r)
             \<and> activity_ok (activity_data r) \<and> readiness_ok lib (readiness_data r)
             \<and> stress_ok (stress_data r) \<and> data_ok workout_ok (workout_list r)"
proof -
  from assms obtain kvs where d: "oura_data = JDict kvs"
    by (cases oura_data) (simp_all add: wf_payload_def)
  from assms have
    f1: "field_ok kvs (slot_ok sleep_ok) ''daily_sleep''" and
    f2: "field_ok kvs (slot_ok period_ok) ''sleep_periods''" and
    f3: "field_ok kvs (slot_ok activity_ok) ''daily_activity''" and
    f4: "field_ok kvs (slot_ok (readiness_ok lib)) ''daily_readiness''" and
    f5: "field_ok kvs (slot_ok stress_ok) ''daily_stress''" and
    f6: "field_ok kvs (slot_ok workout_ok) ''workouts''"
    by (simp_all add: d wf_payload_def)
  have e1: "sleep_ok (JDict [])" by (simp add: sleep_ok_def field_ok_def)
  have e3: "activity_ok (JDict [])" by (simp add: activity_ok_def record_ok_empty)
  have e4: "readiness_ok lib (JDict [])" by (simp add: readiness_ok_def field_ok_def)
  have e5: "stress_ok (JDict [])" by (simp add: stress_ok_def record_ok_empty)
  from first_record_ok [OF slot_ok_default [OF f1] e1, of lib] obtain r1 where
    r1: "first_record lib (case map_of kvs ''daily_sleep'' of Some v \<Rightarrow> v | None \<Rightarrow> JDict [])
           = Inr r1" and o1: "sleep_ok r1" by blast
  from select_period_ok [OF slot_ok_default [OF f2], of lib] obtain r2 where
    r2: "select_period lib (case map_of kvs ''sleep_periods'' of Some v \<Rightarrow> v | None \<Rightarrow> JDict [])
           = Inr r2" and o2: "period_ok r2" by blast
  from first_record_ok [OF slot_ok_default [OF f3] e3, of lib] obtain r3 where
    r3: "first_record lib (case map_of kvs ''daily_activity'' of Some v \<Rightarrow> v | None \<Rightarrow> JDict [])
           = Inr r3" and o3: "activity_ok r3" by blast
  from first_record_ok [OF slot_ok_default [OF f4] e4, of lib] obtain r4 where
    r4: "first_record lib (case map_of kvs ''daily_readiness'' of Some v \<Rightarrow> v | None \<Rightarrow> JDict [])
           = Inr r4" and o4: "readiness_ok lib r4" by blast
  from first_record_ok [OF slot_ok_default [OF f5] e5, of lib] obtain r5 where
    r5: "first_record lib (case map_of kvs ''daily_stress'' of Some v \<Rightarrow> v | None \<Rightarrow> JDict [])
           = Inr r5" and o5: "stress_ok r5" by blast
  from workout_list_ok [OF slot_ok_default [OF f6], of lib] obtain wl where
    wl: "(if truthy lib (case map_of kvs ''workouts'' of Some v \<Rightarrow> v | None \<Rightarrow> JDict [])
          then dict_get (case map_of kvs ''workouts'' of Some v \<Rightarrow> v | None \<Rightarrow> JDict [])
                 ''data'' (JList [])
          else Inr (JList [])) = Inr wl" and o6: "data_ok workout_ok wl" by blast
  show ?thesis
    unfolding d extract_records_def
    using o1 o2 o3 o4 o5 o6
    by (simp add: dict_get_JDict r1 r2 r3 r4 r5 wl)
qed

lemma format_oura_report_ok:
  assumes "wf_payload lib oura_data"
  shows "\<exists>r v w. extract_records lib oura_data = Inr r \<and> report_values lib r = Inr v
           \<and> workouts_section lib (workout_list r) = Inr w
           \<and> format_oura_report lib oura_data = Inr (render_report lib v @ w)"
proof -
  from extract_records_ok [OF assms] obtain r where
    r: "extract_records lib oura_data = Inr r" and
    ok: "sleep_ok (sleep_data r)" "period_ok (period_data r)" "activity_ok (activity_data r)"
        "readiness_ok lib (readiness_data r)" "stress_ok (stress_data r)" and
    wl: "data_ok workout_ok (workout_list r)"
    by blast
  from report_values_ok [OF ok] obtain v where v: "report_values lib r = Inr v" by blast
  from workouts_section_ok [OF wl, of lib] obtain w where
    w: "workouts_section lib (workout_list r) = Inr w" by blast
  show ?thesis by (simp add: format_oura_report_def r v w)
qed

lemma map_of_dict_set:
  "map_of (dict_set kvs key v) k = (if k = key then Some v else map_of kvs k)"
  by (induction kvs key v rule: dict_set.induct) auto

lemma extract_records_frame:
  assumes "extract_records lib (JDict kvs) = Inr r"
      and "extract_records lib (JDict (dict_set kvs ''daily_activity'' x)) = Inr r'"
  shows "r' = r\<lparr>activity_data := activity_data r'\<rparr>"
  using assms
  by (auto simp: extract_records_def bind_err_eq_Inr dict_get_JDict map_of_dict_set)

lemma report_values_frame:
  assumes "report_values lib r = Inr v"
      and "report_values lib (r\<lparr>activity_data := a\<rparr>) = Inr v'"
  shows "v' = v\<lparr>activity_score := activity_score v', v_activity := v_activity v'\<rparr>"
  using assms
  by (auto simp: report_values_def bind_err_eq_Inr)

lemma first_record_marker: "first_record lib (error_marker e) = Inr (JDict [])"
  by (simp add: first_record_def error_marker_def dict_get_JDict truthy_def)

lemma select_period_marker: "select_period lib (error_marker e) = Inr (JDict [])"
  by (simp add: select_period_def error_marker_def dict_get_JDict truthy_def)

lemma activity_details_empty:
  "activity_details lib (JDict []) =
     Inr \<lparr> steps = JStr ''N/A'', active_cal = JStr ''N/A'', low_activity = ''0m'',
           med_activity = ''0m'', high_activity = ''0m'' \<rparr>"
  by (simp add: activity_details_def dict_get_JDict duration_field_absent)

lemma stress_details_empty:
  "stress_details lib (JDict []) =
     Inr \<lparr> stress_summary = JStr ''N/A'', recovery_time = ''0m'', stress_time = ''0m'' \<rparr>"
  by (simp add: stress_details_def dict_get_JDict truthy_def)

lemma temp_deviation_empty: "temp_deviation lib (JDict []) = Inr (JStr ''N/A'')"
  by (simp add: temp_deviation_def dict_get_JDict)

lemma sleep_contributors_empty:
  "sleep_contributors (JDict []) =
     Inr \<lparr> sc_deep_sleep = JStr ''N/A'', sc_rem_sleep = JStr ''N/A'', sc_timing = JStr ''N/A'',
           sc_efficiency = JStr ''N/A'', sc_restfulness = JStr ''N/A'',
           sc_latency = JStr ''N/A'', sc_total_sleep = JStr ''N/A'' \<rparr>"
  by (simp add: sleep_contributors_def dict_get_JDict)

lemma readiness_contributors_empty:
  "readiness_contributors (JDict []) =
     Inr \<lparr> rc_hrv_balance = JStr ''N/A'', rc_sleep_balance = JStr ''N/A'',
           rc_previous_night = JStr ''N/A'', rc_recovery_index = JStr ''N/A'' \<rparr>"
  by (simp add: readiness_contributors_def dict_get_JDict)

lemma extract_records_activity_marker:
  assumes "map_of kvs ''daily_activity'' = Some (error_marker e)"
      and "extract_records lib (JDict kvs) = Inr r"
  shows "activity_data r = JDict []"
  using assms
  by (auto simp: extract_records_def bind_err_eq_Inr dict_get_JDict first_record_marker)

lemma report_values_activity_empty:
  assumes "activity_data r = JDict []" and "report_values lib r = Inr v"
  shows "activity_score v = JStr ''N/A'' \<and>
         v_activity v = \<lparr> steps = JStr ''N/A'', active_cal = JStr ''N/A'', low_activity = ''0m'',
                          med_activity = ''0m'', high_activity = ''0m'' \<rparr>"
  using assms
  by (auto simp: report_values_def bind_err_eq_Inr dict_get_JDict activity_details_empty)

text \<open>Unfolding the formatter on a concrete payload.\<close>

lemmas eval_defs =
  format_oura_report_def extract_records_def dict_get_JDict first_record_def
  select_period_def subscript_key_def subscript0_def py_iter_def truthy_def
  report_values_def period_details_def duration_field_def format_duration_def
  py_floordiv_def py_mod_def py_gt_zero_def str_int_def nat_digits.simps
  format_time_def format_date_short_def replace_Z_def temp_deviation_def
  activity_details_def stress_details_def sleep_contributors_def
  readiness_contributors_def workouts_section_def render_report_def
  error_marker_def reference_lib_def fmt_thousands_def thousands.simps py_str_def
  em_dash_def right_arrow_def degree_sign_def

lemma outage_report_eval:
  "format_oura_report reference_lib (JDict outage_payload) = Inr outage_report"
  by (simp add: eval_defs outage_payload_def outage_report_def rest_period_def night_period_def)

lemma outage_wf: "wf_payload reference_lib (JDict outage_payload)"
  by (simp add: wf_payload_def field_ok_def slot_ok_def data_ok_def sleep_ok_def period_ok_def
      activity_ok_def readiness_ok_def stress_ok_def workout_ok_def record_ok_def temp_ok_def
      number_or_null_def is_dict_def outage_payload_def rest_period_def night_period_def
      error_marker_def reference_lib_def)

text \<open>
  What holds of the formatter on every payload of the documented shape (\<open>wf_payload\<close>):
  it raises nothing; it extracts the records, computes the values and returns the
  rendered report. When the \<^verbatim>\<open>daily_activity\<close> slot holds an error marker, the activity
  score, the steps and the calories are \<^verbatim>\<open>N/A\<close> and the three activity durations are
  \<^verbatim>\<open>0m\<close>; and whatever that slot holds, the records and values of every other section are
  the same.
\<close>

theorem formatter_total_on_documented_shape:
  assumes "wf_payload lib (JDict kvs)"
  shows "\<exists>r v w.
           extract_records lib (JDict kvs) = Inr r \<and> report_values lib r = Inr v
         \<and> workouts_section lib (workout_list r) = Inr w
         \<and> format_oura_report lib (JDict kvs) = Inr (render_report lib v @ w)
         \<and> (\<forall>e. map_of kvs ''daily_activity'' = Some (error_marker e) \<longrightarrow>
               activity_score v = JStr ''N/A'' \<and>
               v_activity v = \<lparr> steps = JStr ''N/A'', active_cal = JStr ''N/A'',
                                low_activity = ''0m'', med_activity = ''0m'',
                                high_activity = ''0m'' \<rparr>)
         \<and> (\<forall>x r' v'. extract_records lib (JDict (dict_set kvs ''daily_activity'' x)) = Inr r'
                 \<and> report_values lib r' = Inr v' \<longrightarrow>
               r' = r\<lparr>activity_data := activity_data r'\<rparr> \<and>
               v' = v\<lparr>activity_score := activity_score v', v_activity := v_activity v'\<rparr>)"
proof -
  from format_oura_report_ok [OF assms] obtain r v w where
    r: "extract_records lib (JDict kvs) = Inr r" and
    v: "report_values lib r = Inr v" and
    w: "workouts_section lib (workout_list r) = Inr w" and
    f: "format_oura_report lib (JDict kvs) = Inr (render_report lib v @ w)"
    by blast
  have marker: "activity_score v = JStr ''N/A'' \<and>
                v_activity v = \<lparr> steps = JStr ''N/A'', active_cal = JStr ''N/A'',
                                 low_activity = ''0m'', med_activity = ''0m'',
                                 high_activity = ''0m'' \<rparr>"
    if "map_of kvs ''daily_activity'' = Some (error_marker e)" for e
    using report_values_activity_empty [OF extract_records_activity_marker [OF that r] v] .
  have frame: "r' = r\<lparr>activity_data := activity_data r'\<rparr> \<and>
               v' = v\<lparr>activity_score := activity_score v', v_activity := v_activity v'\<rparr>"
    if "extract_records lib (JDict (dict_set kvs ''daily_activity'' x)) = Inr r'
          \<and> report_values lib r' = Inr v'" for x r' v'
  proof -
    from that have r': "extract_records lib (JDict (dict_set kvs ''daily_activity'' x)) = Inr r'"
      and v': "report_values lib r' = Inr v'" by simp_all
    from extract_records_frame [OF r r'] have eq: "r' = r\<lparr>activity_data := activity_data r'\<rparr>" .
    from v' eq have "report_values lib (r\<lparr>activity_data := activity_data r'\<rparr>) = Inr v'"
      by simp
    from report_values_frame [OF v this] eq show ?thesis by simp
  qed
  from r v w f marker frame show ?thesis by blast
qed

text \<open>
  The payload with the refused activity request: it has the documented shape, and its
  report shows the placeholders in the ACTIVITY section and the values everywhere else.
\<close>

theorem formatter_total_on_documented_shape_witness:
  "wf_payload reference_lib (JDict outage_payload)
   \<and> format_oura_report reference_lib (JDict outage_payload) = Inr outage_report
   \<and> (\<exists>v w. format_oura_report reference_lib (JDict outage_payload)
                 = Inr (render_report reference_lib v @ w)
            \<and> activity_score v = JStr ''N/A''
            \<and> v_activity v = \<lparr> steps = JStr ''N/A'', active_cal = JStr ''N/A'',
                                 low_activity = ''0m'', med_activity = ''0m'',
                                 high_activity = ''0m'' \<rparr>)"
proof -
  have marker: "map_of outage_payload ''daily_activity''
                  = Some (error_marker ''429 Client Error: Too Many Requests'')"
    by (simp add: outage_payload_def error_marker_def)
  from formatter_total_on_documented_shape [OF outage_wf] marker
  have "\<exists>v w. format_oura_report reference_lib (JDict outage_payload)
                 = Inr (render_report reference_lib v @ w)
            \<and> activity_score v = JStr ''N/A''
            \<and> v_activity v = \<lparr> steps = JStr ''N/A'', active_cal = JStr ''N/A'',
                                 low_activity = ''0m'', med_activity = ''0m'',
                                 high_activity = ''0m'' \<rparr>"
    by blast
  with outage_wf outage_report_eval show ?thesis by simp
qed

text \<open>
  Claim C2: the formatter never raises, and every absent or null field resolves to the
  placeholder. The code breaks it on a null field. In a sleep record whose
  \<^verbatim>\<open>contributors\<close> is null, \<^verbatim>\<open>sleep_data.get("contributors", {})\<close> is \<^verbatim>\<open>None\<close> and the
  lookup \<^verbatim>\<open>sleep_contrib.get('deep_sleep', 'N/A')\<close> of the f-string raises AttributeError;
  a null \<^verbatim>\<open>score\<close> is rendered as \<^verbatim>\<open>None\<close>, not as \<^verbatim>\<open>N/A\<close>. The sibling paths of the
  same file do map a null to the placeholder: \<^verbatim>\<open>format_duration\<close> tests
  \<^verbatim>\<open>seconds is None\<close>, \<^verbatim>\<open>format_time\<close> and \<^verbatim>\<open>format_date_short\<close> test \<^verbatim>\<open>not x\<close>, and
  \<^verbatim>\<open>safe_get\<close> returns the default on \<^verbatim>\<open>None\<close>.
\<close>

theorem formatter_null_field_counterexample:
  "format_oura_report reference_lib null_contributors_payload = Inl AttributeError
   \<and> format_oura_report reference_lib null_score_payload = Inr null_score_report"
  by (simp add: eval_defs dict_get_def null_contributors_payload_def null_score_payload_def
      null_score_report_def)

section \<open>The HTML rendering\<close>

lemma markup_report_eval:
  "format_oura_report reference_lib markup_payload = Inr markup_report"
  by (simp add: eval_defs markup_payload_def markup_report_def)

text \<open>
  Claim C6. The HTML rendering is the text report between two fixed strings: the head of
  the document, which ends by opening a \<^verbatim>\<open>pre\<close> block that the style sheet makes
  whitespace preserving (\<^verbatim>\<open>white-space: pre-wrap\<close>, monospace), and the tail, which starts
  by closing it. The text is the formatter's output, character for character, with nothing
  escaped; when the formatter raises, so does the HTML rendering.
\<close>

theorem html_report_wraps_text:
  "(\<forall>t. format_oura_report lib oura_data = Inr t \<longrightarrow>
        format_html_report lib oura_data = Inr (html_head @ t @ html_tail))
   \<and> (\<forall>e. format_oura_report lib oura_data = Inl e \<longrightarrow>
        format_html_report lib oura_data = Inl e)
   \<and> (\<forall>h. format_html_report lib oura_data = Inr h \<longrightarrow>
        format_oura_report lib oura_data
          = Inr (take (length h - length html_head - length html_tail)
                   (drop (length html_head) h)))
   \<and> (\<exists>a b. html_head = a @ ''white-space: pre-wrap;'' @ b @ ''<pre>'')
   \<and> (\<exists>c. html_tail = ''</pre>'' @ c)"
proof (intro conjI allI impI)
  fix t assume "format_oura_report lib oura_data = Inr t"
  then show "format_html_report lib oura_data = Inr (html_head @ t @ html_tail)"
    by (simp add: format_html_report_def)
next
  fix e assume "format_oura_report lib oura_data = Inl e"
  then show "format_html_report lib oura_data = Inl e"
    by (simp add: format_html_report_def)
next
  fix h assume h: "format_html_report lib oura_data = Inr h"
  then obtain t where t: "format_oura_report lib oura_data = Inr t"
    and "h = html_head @ t @ html_tail"
    by (auto simp: format_html_report_def bind_err_eq_Inr)
  then show "format_oura_report lib oura_data
               = Inr (take (length h - length html_head - length html_tail)
                        (drop (length html_head) h))"
    by simp
next
  show "\<exists>a b. html_head = a @ ''white-space: pre-wrap;'' @ b @ ''<pre>''"
    unfolding html_head_def
    by (intro exI [of _ "concat [''\<newline>'', ''<!DOCTYPE html>\<newline>'', ''<html>\<newline>'',
          ''<head>\<newline>'', ''    <style>\<newline>'', ''        body { \<newline>'',
          ''            font-family: monospace;\<newline>'', ''            font-size: 14px;\<newline>'',
          ''            line-height: 1.5;\<newline>'', ''            color: #333;\<newline>'',
          ''        }\<newline>'', ''        pre {\<newline>'', ''            '']"]
        exI [of _ "concat [''\<newline>'', ''            font-family: monospace;\<newline>'',
          ''        }\<newline>'', ''    </style>\<newline>'', ''</head>\<newline>'', ''<body>\<newline>'',
          ''    '']"]) simp
next
  show "\<exists>c. html_tail = ''</pre>'' @ c"
    unfolding html_tail_def by simp
qed

theorem html_report_wraps_text_witness:
  "format_oura_report reference_lib markup_payload = Inr markup_report
   \<and> format_html_report reference_lib markup_payload
       = Inr (html_head @ markup_report @ html_tail)"
  using html_report_wraps_text [of reference_lib markup_payload, THEN conjunct1,
      rule_format, OF markup_report_eval] markup_report_eval
  by (intro conjI)

section \<open>One day before and after, by day number\<close>

lemma upt_1_12: "[Suc 0..<12] = [1, 2, 3, 4, 5, 6, 7, 8, 9, 10, 11 :: nat]"
  by (simp add: upt_conv_Cons)

lemma days_before_month_12:
  "days_before_month y 12 = (if is_leap y then 335 else 334)"
  by (simp add: days_before_month_def upt_1_12 days_in_month_def)

lemma div_step: "0 < k \<Longrightarrow> Suc z div k = z div k + (if Suc z mod k = 0 then 1 else 0)" for z k :: nat
  by (simp add: div_Suc mod_Suc)

lemma mod_400_100: "y mod 400 = 0 \<Longrightarrow> y mod 100 = 0" for y :: nat
proof -
  assume "y mod 400 = 0"
  then have "400 dvd y" by (simp add: dvd_eq_mod_eq_0)
  moreover have "(100::nat) dvd 400" by simp
  ultimately have "100 dvd y" by (rule dvd_trans [rotated])
  then show ?thesis by (simp add: dvd_eq_mod_eq_0)
qed

lemma mod_100_4: "y mod 100 = 0 \<Longrightarrow> y mod 4 = 0" for y :: nat
proof -
  assume "y mod 100 = 0"
  then have "100 dvd y" by (simp add: dvd_eq_mod_eq_0)
  moreover have "(4::nat) dvd 100" by simp
  ultimately have "4 dvd y" by (rule dvd_trans [rotated])
  then show ?thesis by (simp add: dvd_eq_mod_eq_0)
qed

lemma year_arith:
  fixes p q r z :: nat
  assumes "q \<le> p"
  shows "Suc z * 365 + p - q + r = z * 365 + p - q + r + 365"
    and "Suc z * 365 + (p + 1) - q + r = z * 365 + p - q + r + 366"
    and "Suc z * 365 + (p + 1) - (q + 1) + r = z * 365 + p - q + r + 365"
    and "Suc z * 365 + (p + 1) - (q + 1) + (r + 1) = z * 365 + p - q + r + 366"
  using assms by simp_all

lemma days_before_year_step:
  "days_before_year (Suc (Suc z)) =
     days_before_year (Suc z) + (if is_leap (Suc z) then 366 else 365)"
proof -
  have a: "Suc z div 4 = z div 4 + (if Suc z mod 4 = 0 then 1 else 0)"
    by (rule div_step) simp
  have b: "Suc z div 100 = z div 100 + (if Suc z mod 100 = 0 then 1 else 0)"
    by (rule div_step) simp
  have c: "Suc z div 400 = z div 400 + (if Suc z mod 400 = 0 then 1 else 0)"
    by (rule div_step) simp
  have d: "z div 100 \<le> z div 4" by (rule div_le_mono2) simp_all
  have e: "Suc z mod 400 = 0 \<longrightarrow> Suc z mod 100 = 0" by (rule impI) (rule mod_400_100)
  have f: "Suc z mod 100 = 0 \<longrightarrow> Suc z mod 4 = 0" by (rule impI) (rule mod_100_4)
  have lhs: "days_before_year (Suc (Suc z)) =
               Suc z * 365 + Suc z div 4 - Suc z div 100 + Suc z div 400"
    by (simp add: days_before_year_def)
  have rhs: "days_before_year (Suc z) = z * 365 + z div 4 - z div 100 + z div 400"
    by (simp add: days_before_year_def)
  show ?thesis
  proof (cases "Suc z mod 4 = 0")
    case False
    with f have g: "Suc z mod 100 \<noteq> 0" by (rule_tac notI) simp
    with e have h: "Suc z mod 400 \<noteq> 0" by (rule_tac notI) simp
    from False g h have "\<not> is_leap (Suc z)" by (simp add: is_leap_def)
    moreover from False g h a b c
    have "Suc z div 4 = z div 4" "Suc z div 100 = z div 100" "Suc z div 400 = z div 400"
      by simp_all
    ultimately show ?thesis
      unfolding lhs rhs using year_arith(1) [OF d] by simp
  next
    case m4: True
    show ?thesis
    proof (cases "Suc z mod 100 = 0")
      case False
      with e have h: "Suc z mod 400 \<noteq> 0" by (rule_tac notI) simp
      from m4 False have "is_leap (Suc z)" by (simp add: is_leap_def)
      moreover from m4 False h a b c
      have "Suc z div 4 = z div 4 + 1" "Suc z div 100 = z div 100" "Suc z div 400 = z div 400"
        by simp_all
      ultimately show ?thesis
        unfolding lhs rhs using year_arith(2) [OF d] by simp
    next
      case m100: True
      show ?thesis
      proof (cases "Suc z mod 400 = 0")
        case True
        with m4 have "is_leap (Suc z)" by (simp add: is_leap_def)
        moreover from m4 m100 True a b c
        have "Suc z div 4 = z div 4 + 1" "Suc z div 100 = z div 100 + 1"
          "Suc z div 400 = z div 400 + 1"
          by simp_all
        ultimately show ?thesis
          unfolding lhs rhs using year_arith(4) [OF d] by simp
      next
        case False
        with m100 have "\<not> is_leap (Suc z)" by (simp add: is_leap_def)
        moreover from m4 m100 False a b c
        have "Suc z div 4 = z div 4 + 1" "Suc z div 100 = z div 100 + 1"
          "Suc z div 400 = z div 400"
          by simp_all
        ultimately show ?thesis
          unfolding lhs rhs using year_arith(3) [OF d] by simp
      qed
    qed
  qed
qed

lemma days_before_month_Suc:
  "1 \<le> m \<Longrightarrow> days_before_month y (Suc m) = days_before_month y m + days_in_month y m"
  by (simp add: days_before_month_def)

lemma days_before_month_1: "days_before_month y (Suc 0) = 0"
  by (simp add: days_before_month_def)

lemma days_in_month_pos: "Suc 0 \<le> days_in_month y m"
  by (simp add: days_in_month_def)

lemma ordinal_next_month:
  assumes "1 \<le> m"
  shows "ordinal \<lparr>year = y, month = m, day = days_in_month y m\<rparr> + 1
           = ordinal \<lparr>year = y, month = Suc m, day = 1\<rparr>"
  using assms by (simp add: ordinal_def days_before_month_Suc)

lemma ordinal_next_year:
  "ordinal \<lparr>year = Suc z, month = 12, day = 31\<rparr> + 1
     = ordinal \<lparr>year = Suc (Suc z), month = 1, day = 1\<rparr>"
  by (simp add: ordinal_def days_before_month_12 days_before_month_1 days_before_year_step)

lemma day_before_ordinal:
  assumes "valid_date d" and "day_before d = Inr y"
  shows "valid_date y \<and> ordinal y + 1 = ordinal d"
proof -
  obtain yy mm dd where d: "d = \<lparr>year = yy, month = mm, day = dd\<rparr>" by (cases d) simp
  from assms(1) have v: "1 \<le> yy" "yy \<le> 9999" "1 \<le> mm" "mm \<le> 12" "1 \<le> dd"
    "dd \<le> days_in_month yy mm"
    by (simp_all add: d valid_date_def)
  show ?thesis
  proof (cases "1 < dd")
    case True
    with assms(2) have "y = \<lparr>year = yy, month = mm, day = dd - 1\<rparr>"
      by (simp add: d day_before_def)
    moreover from True v have "1 \<le> dd - 1" "dd - 1 \<le> days_in_month yy mm" "dd - 1 + 1 = dd"
      by arith+
    ultimately show ?thesis
      using v by (simp add: d valid_date_def ordinal_def)
  next
    case d1: False
    with v have dd: "dd = 1" by simp
    show ?thesis
    proof (cases "1 < mm")
      case True
      define m where "m = mm - 1"
      with True have m: "mm = Suc m" "1 \<le> m" by simp_all
      from assms(2) True have y: "y = \<lparr>year = yy, month = m, day = days_in_month yy m\<rparr>"
        by (simp add: d dd m day_before_def)
      from v m have "valid_date y"
        by (simp add: y valid_date_def days_in_month_pos)
      moreover have "ordinal y + 1 = ordinal d"
        using ordinal_next_month [OF m(2), of yy] by (simp add: y d dd m)
      ultimately show ?thesis by simp
    next
      case m1: False
      with v have mm: "mm = 1" by simp
      from assms(2) have "1 < yy"
        by (simp add: d dd mm day_before_def split: if_splits)
      define z where "z = yy - 2"
      with \<open>1 < yy\<close> have z: "yy = Suc (Suc z)" by simp
      from assms(2) have y: "y = \<lparr>year = Suc z, month = 12, day = 31\<rparr>"
        by (simp add: d dd mm z day_before_def)
      from v z have "valid_date y"
        by (simp add: y valid_date_def days_in_month_def)
      moreover have "ordinal y + 1 = ordinal d"
        using ordinal_next_year [of z] by (simp add: y d dd mm z)
      ultimately show ?thesis by simp
    qed
  qed
qed

lemma day_after_ordinal:
  assumes "valid_date d" and "day_after d = Inr t"
  shows "valid_date t \<and> ordinal t = ordinal d + 1"
proof -
  obtain yy mm dd where d: "d = \<lparr>year = yy, month = mm, day = dd\<rparr>" by (cases d) simp
  from assms(1) have v: "1 \<le> yy" "yy \<le> 9999" "1 \<le> mm" "mm \<le> 12" "1 \<le> dd"
    "dd \<le> days_in_month yy mm"
    by (simp_all add: d valid_date_def)
  show ?thesis
  proof (cases "dd < days_in_month yy mm")
    case True
    with assms(2) have "t = \<lparr>year = yy, month = mm, day = dd + 1\<rparr>"
      by (simp add: d day_after_def)
    moreover from True have "dd + 1 \<le> days_in_month yy mm" by arith
    ultimately show ?thesis
      using v by (simp add: d valid_date_def ordinal_def)
  next
    case last: False
    with v have dd: "dd = days_in_month yy mm" by simp
    show ?thesis
    proof (cases "mm < 12")
      case True
      from assms(2) last True have t: "t = \<lparr>year = yy, month = Suc mm, day = 1\<rparr>"
        by (simp add: d day_after_def)
      from v True have "valid_date t"
        by (simp add: t valid_date_def days_in_month_pos)
      moreover have "ordinal t = ordinal d + 1"
        using ordinal_next_month [OF v(3), of yy] by (simp add: t d dd)
      ultimately show ?thesis by simp
    next
      case dec: False
      with v have mm: "mm = 12" by simp
      from assms(2) last have "yy < 9999"
        by (simp add: d mm day_after_def split: if_splits)
      define z where "z = yy - 1"
      with v have z: "yy = Suc z" by simp
      from assms(2) last \<open>yy < 9999\<close> have t: "t = \<lparr>year = Suc (Suc z), month = 1, day = 1\<rparr>"
        by (simp add: d mm z day_after_def)
      have d31: "dd = 31" by (simp add: dd mm days_in_month_def)
      from \<open>yy < 9999\<close> z have "valid_date t"
        by (simp add: t valid_date_def days_in_month_def)
      moreover have "ordinal t = ordinal d + 1"
        using ordinal_next_year [of z] by (simp add: t d d31 mm z)
      ultimately show ?thesis by simp
    qed
  qed
qed

lemma day_before_defined:
  "valid_date d \<Longrightarrow> d \<noteq> \<lparr>year = 1, month = 1, day = 1\<rparr> \<Longrightarrow> \<exists>y. day_before d = Inr y"
  by (cases d) (auto simp: day_before_def valid_date_def)

lemma day_after_defined:
  "valid_date d \<Longrightarrow> d \<noteq> \<lparr>year = 9999, month = 12, day = 31\<rparr> \<Longrightarrow> \<exists>t. day_after d = Inr t"
  by (cases d) (auto simp: day_after_def valid_date_def days_in_month_def)

section \<open>Fetching the data\<close>

lemma io_bind_return [simp]: "io_bind (io_return x) f = f x"
  by (simp add: io_bind_def io_return_def)

lemma io_bind_raise [simp]: "io_bind (io_raise e) f = io_raise e"
  by (simp add: io_bind_def io_raise_def fun_eq_iff)

lemma lift_err_Inr [simp]: "lift_err (Inr x) = io_return x"
  by (simp add: lift_err_def)

lemma lift_err_Inl [simp]: "lift_err (Inl e) = io_raise e"
  by (simp add: lift_err_def)

lemma io_bind_try_fetch:
  "io_bind (try_fetch slot (make_request http tok (''v2/usercollection/'' @ ep) s e) data) f log =
     (if is_other (http (category_request tok ep s e))
      then (RaisedOther (Propagated (other_reason (http (category_request tok ep s e)))),
            log @ [category_request tok ep s e])
      else f (dict_set data slot (stored (http (category_request tok ep s e))))
             (log @ [category_request tok ep s e]))"
  by (simp add: io_bind_def try_fetch_def make_request_def category_request_def BASE_URL_def
      stored_def is_other_def other_reason_def Let_def split: response.splits)

lemma get_todays_data_plan:
  assumes "day_before (dt_date now1) = Inr y" and "day_after (dt_date now3) = Inr t"
  shows "get_todays_data lib http tok now1 now2 now3 now4 log =
           run_plan http
             (category_requests tok (strftime_ymd lib y) (strftime_ymd lib (dt_date now2))
                (strftime_ymd lib t))
             (initial_data (strftime_ymd lib (dt_date now2)) (strftime_ymd lib y)
                (isoformat lib now4))
             log"
proof -
  have ep: "''v2/usercollection/daily_sleep'' = ''v2/usercollection/'' @ ''daily_sleep''"
    "''v2/usercollection/sleep'' = ''v2/usercollection/'' @ ''sleep''"
    "''v2/usercollection/daily_readiness'' = ''v2/usercollection/'' @ ''daily_readiness''"
    "''v2/usercollection/daily_activity'' = ''v2/usercollection/'' @ ''daily_activity''"
    "''v2/usercollection/daily_stress'' = ''v2/usercollection/'' @ ''daily_stress''"
    "''v2/usercollection/workout'' = ''v2/usercollection/'' @ ''workout''"
    "''v2/usercollection/sleep_time'' = ''v2/usercollection/'' @ ''sleep_time''"
    by simp_all
  show ?thesis
    unfolding get_todays_data_def assms get_daily_sleep_def get_sleep_periods_def
      get_daily_readiness_def get_daily_activity_def get_daily_stress_def get_workouts_def
      get_sleep_time_def ep Let_def
    unfolding lift_err_Inr io_bind_return io_bind_try_fetch
    unfolding category_requests_def run_plan.simps initial_data_def io_return_def
    by (rule refl)
qed

lemma run_plan_log:
  "\<exists>n\<le>length plan. snd (run_plan http plan data log) = log @ map snd (take n plan)"
proof (induction plan arbitrary: data log)
  case Nil
  then show ?case by simp
next
  case (Cons a plan)
  obtain slot rq where a: "a = (slot, rq)" by (cases a)
  show ?case
  proof (cases "is_other (http rq)")
    case True
    have "snd (run_plan http (a # plan) data log) = log @ map snd (take 1 (a # plan))"
      using True by (simp add: a)
    then show ?thesis by (intro exI [of _ 1]) simp
  next
    case False
    from Cons.IH [of "dict_set data slot (stored (http rq))" "log @ [rq]"]
    obtain n where n: "n \<le> length plan"
      "snd (run_plan http plan (dict_set data slot (stored (http rq))) (log @ [rq]))
         = (log @ [rq]) @ map snd (take n plan)"
      by blast
    with False have "snd (run_plan http (a # plan) data log)
                       = log @ map snd (take (Suc n) (a # plan))"
      by (simp add: a)
    with n(1) show ?thesis by (intro exI [of _ "Suc n"]) simp
  qed
qed

lemma run_plan_all:
  "list_all (\<lambda>(slot, rq). \<not> is_other (http rq)) plan \<Longrightarrow>
   run_plan http plan data log = (Returned (JDict (store_all http plan data)), log @ map snd plan)"
  by (induction plan arbitrary: data log) auto

lemma run_plan_returned:
  "fst (run_plan http plan data log) = Returned p \<Longrightarrow>
   list_all (\<lambda>(slot, rq). \<not> is_other (http rq)) plan"
  by (induction plan arbitrary: data log) (auto split: if_splits)

lemma store_all_other_key:
  "k \<notin> fst ` set plan \<Longrightarrow> map_of (store_all http plan data) k = map_of data k"
  by (induction plan arbitrary: data) (auto simp: map_of_dict_set)

lemma store_all_slot:
  "distinct (map fst plan) \<Longrightarrow> (slot, rq) \<in> set plan \<Longrightarrow>
   map_of (store_all http plan data) slot = Some (stored (http rq))"
proof (induction plan arbitrary: data)
  case Nil
  then show ?case by simp
next
  case (Cons a plan)
  obtain s r where a: "a = (s, r)" by (cases a)
  show ?case
  proof (cases "(slot, rq) = a")
    case True
    with a have eq: "slot = s" "rq = r" by simp_all
    from Cons.prems(1) a have "s \<notin> fst ` set plan" by auto
    then have "map_of (store_all http plan (dict_set data s (stored (http r)))) s
                 = map_of (dict_set data s (stored (http r))) s"
      by (rule store_all_other_key)
    then show ?thesis
      by (simp add: a eq map_of_dict_set)
  next
    case False
    with Cons a show ?thesis by auto
  qed
qed

lemma category_slots_distinct:
  "distinct (map fst (category_requests tok a b c))"
  by (simp add: category_requests_def)

lemma category_slots:
  "map fst (category_requests tok a b c) =
     [''daily_sleep'', ''sleep_periods'', ''daily_readiness'', ''daily_activity'',
      ''daily_stress'', ''workouts'', ''sleep_time'']"
  by (simp add: category_requests_def)

lemma stored_cases:
  "\<not> is_other resp \<Longrightarrow>
   (\<forall>j. resp = Body j \<longrightarrow> stored resp = j) \<and>
   (\<forall>reason. resp = RequestException reason \<longrightarrow> stored resp = error_marker reason) \<and>
   ((\<exists>j. resp = Body j) \<or> (\<exists>reason. resp = RequestException reason))"
  by (cases resp) (simp_all add: stored_def is_other_def)

lemma get_todays_data_overflow_before:
  "day_before (dt_date now1) = Inl e \<Longrightarrow>
   get_todays_data lib http tok now1 now2 now3 now4 log = (RaisedOther e, log)"
  by (simp add: get_todays_data_def, simp add: io_raise_def)

lemma get_todays_data_overflow_after:
  "day_before (dt_date now1) = Inr y \<Longrightarrow> day_after (dt_date now3) = Inl e \<Longrightarrow>
   get_todays_data lib http tok now1 now2 now3 now4 log = (RaisedOther e, log)"
  by (simp add: get_todays_data_def, simp add: io_raise_def)

lemma get_todays_data_returned:
  assumes "fst (get_todays_data lib http tok now1 now2 now3 now4 log) = Returned p"
  shows "\<exists>y t. day_before (dt_date now1) = Inr y \<and> day_after (dt_date now3) = Inr t
           \<and> list_all (\<lambda>(slot, rq). \<not> is_other (http rq))
                (category_requests tok (strftime_ymd lib y) (strftime_ymd lib (dt_date now2))
                   (strftime_ymd lib t))
           \<and> p = JDict (store_all http
                    (category_requests tok (strftime_ymd lib y)
                       (strftime_ymd lib (dt_date now2)) (strftime_ymd lib t))
                    (initial_data (strftime_ymd lib (dt_date now2)) (strftime_ymd lib y)
                       (isoformat lib now4)))
           \<and> snd (get_todays_data lib http tok now1 now2 now3 now4 log)
               = log @ map snd (category_requests tok (strftime_ymd lib y)
                                  (strftime_ymd lib (dt_date now2)) (strftime_ymd lib t))"
proof (cases "day_before (dt_date now1)")
  case (Inl e)
  from get_todays_data_overflow_before [OF this, of lib http tok now2 now3 now4 log] assms
  show ?thesis by simp
next
  case y: (Inr y)
  show ?thesis
  proof (cases "day_after (dt_date now3)")
    case (Inl e)
    from get_todays_data_overflow_after [OF y this, of lib http tok now2 now4 log] assms
    show ?thesis by simp
  next
    case t: (Inr t)
    note plan = get_todays_data_plan [OF y t, of lib http tok now2 now4 log]
    from assms have ok: "list_all (\<lambda>(slot, rq). \<not> is_other (http rq))
        (category_requests tok (strftime_ymd lib y) (strftime_ymd lib (dt_date now2))
           (strftime_ymd lib t))"
      unfolding plan by (rule run_plan_returned)
    from assms show ?thesis
      unfolding plan run_plan_all [OF ok] using y t ok by simp
  qed
qed

lemmas fetch_eval_defs =
  get_todays_data_def get_daily_sleep_def get_sleep_periods_def get_daily_readiness_def
  get_daily_activity_def get_daily_stress_def get_workouts_def get_sleep_time_def
  make_request_def try_fetch_def io_bind_def io_return_def io_raise_def lift_err_def
  day_before_def day_after_def days_in_month_def is_leap_def BASE_URL_def Let_def
  reference_lib_def iso_date_def iso_datetime_def pad2_def nat_digits.simps error_marker_def

lemma outage_fetch_eval:
  "get_todays_data reference_lib outage_http ''token'' morning morning morning morning []
     = (Returned (JDict outage_payload),
        map snd (category_requests ''token'' ''2024-12-26'' ''2024-12-27'' ''2024-12-28''))"
  by (simp add: fetch_eval_defs outage_http_def morning_def outage_payload_def
      category_requests_def category_request_def)

text \<open>
  Claim C5. Let every failure of a category's request be a RequestException (a
  connection error, a timeout, the HTTPError of a 401 or 429 status): no request raises
  anything else. Then \<^verbatim>\<open>get_todays_data\<close> raises nothing: it sends all seven requests,
  in order, and returns the payload; each of the seven slots holds the answer to its own
  request, the body when the request succeeded and the dict \<^verbatim>\<open>{"error": reason}\<close> when it
  failed with that reason, whatever happened to the other requests.
\<close>

theorem get_todays_data_isolates_failures:
  assumes "day_before (dt_date now1) = Inr y" and "day_after (dt_date now3) = Inr t"
      and "plan = category_requests tok (strftime_ymd lib y)
                    (strftime_ymd lib (dt_date now2)) (strftime_ymd lib t)"
      and "\<forall>(slot, rq) \<in> set plan. \<forall>x. http rq \<noteq> OtherException x"
  shows "\<exists>data.
           get_todays_data lib http tok now1 now2 now3 now4 log
             = (Returned (JDict data), log @ map snd plan)
         \<and> map fst plan = [''daily_sleep'', ''sleep_periods'', ''daily_readiness'',
                            ''daily_activity'', ''daily_stress'', ''workouts'', ''sleep_time'']
         \<and> (\<forall>(slot, rq) \<in> set plan.
               (\<forall>j. http rq = Body j \<longrightarrow> map_of data slot = Some j)
             \<and> (\<forall>reason. http rq = RequestException reason
                    \<longrightarrow> map_of data slot = Some (JDict [(''error'', JStr reason)])))"
proof -
  let ?init = "initial_data (strftime_ymd lib (dt_date now2)) (strftime_ymd lib y)
                 (isoformat lib now4)"
  from assms(4) have ok: "list_all (\<lambda>(slot, rq). \<not> is_other (http rq)) plan"
    by (auto simp: list_all_iff is_other_def split: response.splits)
  have run: "get_todays_data lib http tok now1 now2 now3 now4 log
               = (Returned (JDict (store_all http plan ?init)), log @ map snd plan)"
    unfolding get_todays_data_plan [OF assms(1,2)] assms(3) [symmetric]
    by (rule run_plan_all [OF ok])
  have d: "distinct (map fst plan)"
    unfolding assms(3) by (rule category_slots_distinct)
  have s: "map fst plan = [''daily_sleep'', ''sleep_periods'', ''daily_readiness'',
                           ''daily_activity'', ''daily_stress'', ''workouts'', ''sleep_time'']"
    unfolding assms(3) by (rule category_slots)
  have "(\<forall>j. http rq = Body j \<longrightarrow> map_of (store_all http plan ?init) slot = Some j)
      \<and> (\<forall>reason. http rq = RequestException reason
             \<longrightarrow> map_of (store_all http plan ?init) slot
                   = Some (JDict [(''error'', JStr reason)]))"
    if "(slot, rq) \<in> set plan" for slot rq
    using store_all_slot [OF d that, of http ?init]
    by (auto simp: stored_def error_marker_def)
  then have slots:
    "\<forall>(slot, rq) \<in> set plan.
       (\<forall>j. http rq = Body j \<longrightarrow> map_of (store_all http plan ?init) slot = Some j)
     \<and> (\<forall>reason. http rq = RequestException reason
            \<longrightarrow> map_of (store_all http plan ?init) slot
                  = Some (JDict [(''error'', JStr reason)]))"
    by blast
  show ?thesis
    by (rule exI [of _ "store_all http plan ?init"]) (intro conjI run s slots)
qed

text \<open>
  With the activity request refused and the other six answered, the payload is the one
  with the error marker in the activity slot and the six bodies in theirs, and all seven
  requests were sent.
\<close>

theorem get_todays_data_isolates_failures_witness:
  "get_todays_data reference_lib outage_http ''token'' morning morning morning morning []
     = (Returned (JDict outage_payload),
        map snd (category_requests ''token'' ''2024-12-26'' ''2024-12-27'' ''2024-12-28''))
   \<and> map_of outage_payload ''daily_activity''
       = Some (JDict [(''error'', JStr ''429 Client Error: Too Many Requests'')])"
proof -
  have y: "day_before (dt_date morning) = Inr \<lparr>year = 2024, month = 12, day = 26\<rparr>"
    by (simp add: morning_def day_before_def)
  have t: "day_after (dt_date morning) = Inr \<lparr>year = 2024, month = 12, day = 28\<rparr>"
    by (simp add: morning_def day_after_def days_in_month_def)
  define plan where "plan = category_requests ''token''
      (strftime_ymd reference_lib \<lparr>year = 2024, month = 12, day = 26\<rparr>)
      (strftime_ymd reference_lib (dt_date morning))
      (strftime_ymd reference_lib \<lparr>year = 2024, month = 12, day = 28\<rparr>)"
  have plan_eq:
    "plan = category_requests ''token'' ''2024-12-26'' ''2024-12-27'' ''2024-12-28''"
    by (simp add: plan_def morning_def reference_lib_def iso_date_def pad2_def
        nat_digits.simps)
  have ok: "\<forall>(slot, rq) \<in> set plan. \<forall>x. outage_http rq \<noteq> OtherException x"
    by (simp add: plan_eq category_requests_def category_request_def outage_http_def)
  have activity: "(''daily_activity'',
                   category_request ''token'' ''daily_activity'' ''2024-12-26'' ''2024-12-27'')
                    \<in> set plan"
    by (simp add: plan_eq category_requests_def)
  have refused: "outage_http
                   (category_request ''token'' ''daily_activity'' ''2024-12-26'' ''2024-12-27'')
                    = RequestException ''429 Client Error: Too Many Requests''"
    by (simp add: outage_http_def category_request_def)
  from get_todays_data_isolates_failures
         [where ?now4.0 = morning and log = "[]", OF y t plan_def ok]
  obtain data where
    run: "get_todays_data reference_lib outage_http ''token'' morning morning morning morning []
            = (Returned (JDict data), [] @ map snd plan)" and
    slots: "\<forall>(slot, rq) \<in> set plan.
              (\<forall>j. outage_http rq = Body j \<longrightarrow> map_of data slot = Some j)
            \<and> (\<forall>reason. outage_http rq = RequestException reason
                   \<longrightarrow> map_of data slot = Some (JDict [(''error'', JStr reason)]))"
    by blast
  from run outage_fetch_eval have data: "data = outage_payload" by simp
  from slots activity refused
  have "map_of data ''daily_activity''
          = Some (JDict [(''error'', JStr ''429 Client Error: Too Many Requests'')])"
    by blast
  with run data plan_eq show ?thesis by simp
qed

lemma new_year_fetch_eval:
  "get_todays_data reference_lib offline_http ''token'' new_year_morning new_year_morning
     new_year_morning new_year_morning []
     = (Returned (JDict new_year_payload),
        map snd (category_requests ''token'' ''2024-12-31'' ''2025-01-01'' ''2025-01-02''))"
  by (simp add: fetch_eval_defs offline_http_def new_year_morning_def new_year_payload_def
      category_requests_def category_request_def)

lemma category_windows:
  "map (\<lambda>(slot, rq). window rq) (category_requests tok yesterday today tomorrow) =
     [(''https://api.ouraring.com/v2/usercollection/daily_sleep'', today, tomorrow),
      (''https://api.ouraring.com/v2/usercollection/sleep'', today, tomorrow),
      (''https://api.ouraring.com/v2/usercollection/daily_readiness'', today, tomorrow),
      (''https://api.ouraring.com/v2/usercollection/daily_activity'', yesterday, today),
      (''https://api.ouraring.com/v2/usercollection/daily_stress'', yesterday, today),
      (''https://api.ouraring.com/v2/usercollection/workout'', yesterday, today),
      (''https://api.ouraring.com/v2/usercollection/sleep_time'', yesterday, today)]"
  by (simp add: category_requests_def category_request_def window_def)

lemma initial_data_keys:
  "map_of (initial_data a b c) ''date'' = Some (JStr a)"
  "map_of (initial_data a b c) ''activity_date'' = Some (JStr b)"
  "map_of (initial_data a b c) ''fetched_at'' = Some (JStr c)"
  by (simp_all add: initial_data_def)

lemma store_all_keeps_dates:
  "map_of (store_all http (category_requests tok y d t) data) ''date'' = map_of data ''date''"
  "map_of (store_all http (category_requests tok y d t) data) ''activity_date''
     = map_of data ''activity_date''"
  "map_of (store_all http (category_requests tok y d t) data) ''fetched_at''
     = map_of data ''fetched_at''"
  by (rule store_all_other_key, simp add: category_requests_def)+

text \<open>
  Claim C10. Every payload \<^verbatim>\<open>get_todays_data\<close> returns is a dict with the keys
  \<^verbatim>\<open>date\<close>, \<^verbatim>\<open>activity_date\<close> and \<^verbatim>\<open>fetched_at\<close>, and each of the seven category slots
  holds the answer to its category's request: the body of the API response, or the dict
  \<^verbatim>\<open>{"error": reason}\<close>. No slot is left at its initial \<^verbatim>\<open>None\<close>; and when the API
  answers with JSON objects, as it is declared to, every slot holds a dict.
\<close>

theorem get_todays_data_payload_shape:
  assumes "fst (get_todays_data lib http tok now1 now2 now3 now4 log) = Returned p"
  shows "\<exists>data y t.
           p = JDict data
         \<and> day_before (dt_date now1) = Inr y \<and> day_after (dt_date now3) = Inr t
         \<and> map_of data ''date'' = Some (JStr (strftime_ymd lib (dt_date now2)))
         \<and> map_of data ''activity_date'' = Some (JStr (strftime_ymd lib y))
         \<and> map_of data ''fetched_at'' = Some (JStr (isoformat lib now4))
         \<and> map fst (category_requests tok (strftime_ymd lib y)
                      (strftime_ymd lib (dt_date now2)) (strftime_ymd lib t))
             = [''daily_sleep'', ''sleep_periods'', ''daily_readiness'', ''daily_activity'',
                ''daily_stress'', ''workouts'', ''sleep_time'']
         \<and> (\<forall>(slot, rq) \<in> set (category_requests tok (strftime_ymd lib y)
                                    (strftime_ymd lib (dt_date now2)) (strftime_ymd lib t)).
               (\<exists>j. http rq = Body j \<and> map_of data slot = Some j)
             \<or> (\<exists>reason. http rq = RequestException reason
                    \<and> map_of data slot = Some (JDict [(''error'', JStr reason)])))
         \<and> ((\<forall>rq j. http rq = Body j \<longrightarrow> (\<exists>kvs. j = JDict kvs)) \<longrightarrow>
              list_all (\<lambda>slot. \<exists>kvs. map_of data slot = Some (JDict kvs))
                [''daily_sleep'', ''sleep_periods'', ''daily_readiness'', ''daily_activity'',
                 ''daily_stress'', ''workouts'', ''sleep_time''])"
proof -
  from get_todays_data_returned [OF assms] obtain y t where
    y: "day_before (dt_date now1) = Inr y" and t: "day_after (dt_date now3) = Inr t" and
    ok: "list_all (\<lambda>(slot, rq). \<not> is_other (http rq))
           (category_requests tok (strftime_ymd lib y) (strftime_ymd lib (dt_date now2))
              (strftime_ymd lib t))" and
    p: "p = JDict (store_all http
              (category_requests tok (strftime_ymd lib y) (strftime_ymd lib (dt_date now2))
                 (strftime_ymd lib t))
              (initial_data (strftime_ymd lib (dt_date now2)) (strftime_ymd lib y)
                 (isoformat lib now4)))"
    by blast
  let ?plan = "category_requests tok (strftime_ymd lib y) (strftime_ymd lib (dt_date now2))
                 (strftime_ymd lib t)"
  let ?data = "store_all http ?plan
                 (initial_data (strftime_ymd lib (dt_date now2)) (strftime_ymd lib y)
                    (isoformat lib now4))"
  have k1: "map_of ?data ''date'' = Some (JStr (strftime_ymd lib (dt_date now2)))"
    by (simp add: store_all_keeps_dates initial_data_keys)
  have k2: "map_of ?data ''activity_date'' = Some (JStr (strftime_ymd lib y))"
    by (simp add: store_all_keeps_dates initial_data_keys)
  have k3: "map_of ?data ''fetched_at'' = Some (JStr (isoformat lib now4))"
    by (simp add: store_all_keeps_dates initial_data_keys)
  have names: "map fst ?plan
                 = [''daily_sleep'', ''sleep_periods'', ''daily_readiness'', ''daily_activity'',
                    ''daily_stress'', ''workouts'', ''sleep_time'']"
    by (rule category_slots)
  have one: "(\<exists>j. http rq = Body j \<and> map_of ?data slot = Some j)
           \<or> (\<exists>reason. http rq = RequestException reason
                  \<and> map_of ?data slot = Some (JDict [(''error'', JStr reason)]))"
    if "(slot, rq) \<in> set ?plan" for slot rq
  proof -
    from ok that have "\<not> is_other (http rq)" by (auto simp: list_all_iff)
    moreover have "map_of ?data slot = Some (stored (http rq))"
      using category_slots_distinct that by (rule store_all_slot)
    ultimately show ?thesis
      by (cases "http rq") (simp_all add: stored_def is_other_def error_marker_def)
  qed
  then have slots:
    "\<forall>(slot, rq) \<in> set ?plan.
       (\<exists>j. http rq = Body j \<and> map_of ?data slot = Some j)
     \<or> (\<exists>reason. http rq = RequestException reason
            \<and> map_of ?data slot = Some (JDict [(''error'', JStr reason)]))"
    by blast
  have dicts: "list_all (\<lambda>slot. \<exists>kvs. map_of ?data slot = Some (JDict kvs))
                 [''daily_sleep'', ''sleep_periods'', ''daily_readiness'', ''daily_activity'',
                  ''daily_stress'', ''workouts'', ''sleep_time'']"
    if bodies: "\<forall>rq j. http rq = Body j \<longrightarrow> (\<exists>kvs. j = JDict kvs)"
  proof -
    have "\<exists>kvs. map_of ?data slot = Some (JDict kvs)" if "slot \<in> set (map fst ?plan)" for slot
    proof -
      from that obtain rq where "(slot, rq) \<in> set ?plan" by auto
      from one [OF this] bodies show ?thesis by metis
    qed
    then show ?thesis
      unfolding names by (simp add: list_all_iff)
  qed
  show ?thesis
    by (rule exI [of _ ?data], rule exI [of _ y], rule exI [of _ t])
       (intro conjI impI p y t k1 k2 k3 names slots dicts)
qed

text \<open>
  The run with the activity request refused: the payload it returns has the three keys,
  and every slot holds a dict.
\<close>

theorem get_todays_data_payload_shape_witness:
  "fst (get_todays_data reference_lib outage_http ''token'' morning morning morning morning [])
     = Returned (JDict outage_payload)
   \<and> map_of outage_payload ''date'' = Some (JStr ''2024-12-27'')
   \<and> map_of outage_payload ''activity_date'' = Some (JStr ''2024-12-26'')
   \<and> map_of outage_payload ''fetched_at'' = Some (JStr ''2024-12-27T10:00:03'')
   \<and> list_all (\<lambda>slot. \<exists>kvs. map_of outage_payload slot = Some (JDict kvs))
         [''daily_sleep'', ''sleep_periods'', ''daily_readiness'', ''daily_activity'',
          ''daily_stress'', ''workouts'', ''sleep_time'']"
proof -
  have run: "fst (get_todays_data reference_lib outage_http ''token'' morning morning morning
                    morning []) = Returned (JDict outage_payload)"
    by (simp add: outage_fetch_eval)
  have bodies: "\<forall>rq j. outage_http rq = Body j \<longrightarrow> (\<exists>kvs. j = JDict kvs)"
    by (auto simp: outage_http_def rest_period_def night_period_def
        split: if_splits option.splits)
  from get_todays_data_payload_shape [OF run] obtain data y where
    data: "JDict outage_payload = JDict data" and
    y: "day_before (dt_date morning) = Inr y" and
    k1: "map_of data ''date'' = Some (JStr (strftime_ymd reference_lib (dt_date morning)))" and
    k2: "map_of data ''activity_date'' = Some (JStr (strftime_ymd reference_lib y))" and
    k3: "map_of data ''fetched_at'' = Some (JStr (isoformat reference_lib morning))" and
    dicts: "(\<forall>rq j. outage_http rq = Body j \<longrightarrow> (\<exists>kvs. j = JDict kvs)) \<longrightarrow>
            list_all (\<lambda>slot. \<exists>kvs. map_of data slot = Some (JDict kvs))
              [''daily_sleep'', ''sleep_periods'', ''daily_readiness'', ''daily_activity'',
               ''daily_stress'', ''workouts'', ''sleep_time'']"
    by blast
  from data have eq: "data = outage_payload" by simp
  from y have y': "y = \<lparr>year = 2024, month = 12, day = 26\<rparr>"
    by (simp add: morning_def day_before_def)
  from k1 have "map_of outage_payload ''date'' = Some (JStr ''2024-12-27'')"
    by (simp add: eq morning_def reference_lib_def iso_date_def pad2_def nat_digits.simps)
  moreover from k2 have "map_of outage_payload ''activity_date'' = Some (JStr ''2024-12-26'')"
    by (simp add: eq y' reference_lib_def iso_date_def pad2_def nat_digits.simps)
  moreover from k3 have "map_of outage_payload ''fetched_at'' = Some (JStr ''2024-12-27T10:00:03'')"
    by (simp add: eq morning_def reference_lib_def iso_datetime_def iso_date_def pad2_def
        nat_digits.simps)
  moreover from dicts bodies
  have "list_all (\<lambda>slot. \<exists>kvs. map_of outage_payload slot = Some (JDict kvs))
          [''daily_sleep'', ''sleep_periods'', ''daily_readiness'', ''daily_activity'',
           ''daily_stress'', ''workouts'', ''sleep_time'']"
    unfolding eq by (rule mp)
  ultimately show ?thesis using run by (intro conjI)
qed

text \<open>
  Claim C4. Let the three clock readings that give \<^verbatim>\<open>yesterday\<close>, \<^verbatim>\<open>today\<close> and
  \<^verbatim>\<open>tomorrow\<close> fall on the same date \<open>d\<close> (a date with a day before it and a day after
  it in Python's range). Then the date selection yields \<open>d\<close> as the report date and the
  day before \<open>d\<close> as the activity date, where the day before is the date whose day number
  is one less, across month and year boundaries alike; and the requests use the window
  from \<open>d\<close> to the day after \<open>d\<close> for daily sleep, sleep periods and readiness, and the
  window from the day before \<open>d\<close> to \<open>d\<close> for activity, stress, workouts and sleep time.
  The requests sent are the first ones of that list (all seven when the call returns).
\<close>

theorem get_todays_data_dates_and_windows:
  assumes "valid_date d"
      and "dt_date now1 = d" and "dt_date now2 = d" and "dt_date now3 = d"
      and "d \<noteq> \<lparr>year = 1, month = 1, day = 1\<rparr>"
      and "d \<noteq> \<lparr>year = 9999, month = 12, day = 31\<rparr>"
  shows "\<exists>y t.
           day_before d = Inr y \<and> valid_date y \<and> ordinal y + 1 = ordinal d
         \<and> day_after d = Inr t \<and> valid_date t \<and> ordinal t = ordinal d + 1
         \<and> (\<exists>n\<le>7.
              map window (snd (get_todays_data lib http tok now1 now2 now3 now4 []))
                = take n
                   [(''https://api.ouraring.com/v2/usercollection/daily_sleep'',
                       strftime_ymd lib d, strftime_ymd lib t),
                    (''https://api.ouraring.com/v2/usercollection/sleep'',
                       strftime_ymd lib d, strftime_ymd lib t),
                    (''https://api.ouraring.com/v2/usercollection/daily_readiness'',
                       strftime_ymd lib d, strftime_ymd lib t),
                    (''https://api.ouraring.com/v2/usercollection/daily_activity'',
                       strftime_ymd lib y, strftime_ymd lib d),
                    (''https://api.ouraring.com/v2/usercollection/daily_stress'',
                       strftime_ymd lib y, strftime_ymd lib d),
                    (''https://api.ouraring.com/v2/usercollection/workout'',
                       strftime_ymd lib y, strftime_ymd lib d),
                    (''https://api.ouraring.com/v2/usercollection/sleep_time'',
                       strftime_ymd lib y, strftime_ymd lib d)]
              \<and> (\<forall>p. fst (get_todays_data lib http tok now1 now2 now3 now4 []) = Returned p
                     \<longrightarrow> n = 7))
         \<and> (\<forall>p. fst (get_todays_data lib http tok now1 now2 now3 now4 []) = Returned p \<longrightarrow>
               dict_get p ''date'' JNull = Inr (JStr (strftime_ymd lib d))
             \<and> dict_get p ''activity_date'' JNull = Inr (JStr (strftime_ymd lib y)))"
proof -
  from day_before_defined [OF assms(1,5)] obtain y where y: "day_before d = Inr y" by blast
  from day_after_defined [OF assms(1,6)] obtain t where t: "day_after d = Inr t" by blast
  note yo = day_before_ordinal [OF assms(1) y]
  note to = day_after_ordinal [OF assms(1) t]
  let ?plan = "category_requests tok (strftime_ymd lib y) (strftime_ymd lib d)
                 (strftime_ymd lib t)"
  let ?init = "initial_data (strftime_ymd lib d) (strftime_ymd lib y) (isoformat lib now4) ::
                 (string \<times> 'a json) list"
  let ?run = "get_todays_data lib http tok now1 now2 now3 now4 []"
  have y1: "day_before (dt_date now1) = Inr y" and t3: "day_after (dt_date now3) = Inr t"
    using y t assms(2,4) by simp_all
  have run: "?run = run_plan http ?plan ?init []"
    using get_todays_data_plan [OF y1 t3, of lib http tok now2 now4 "[]"] assms(3) by simp
  from run_plan_log [of ?plan http ?init "[]"] obtain n where
    n: "n \<le> length ?plan" and
    log: "snd (run_plan http ?plan ?init []) = [] @ map snd (take n ?plan)"
    by blast
  have len: "length ?plan = 7" by (simp add: category_requests_def)
  have "map window (snd ?run) = take n (map (\<lambda>(slot, rq). window rq) ?plan)"
    unfolding run log by (simp add: take_map case_prod_unfold comp_def)
  then have windows: "map window (snd ?run)
      = take n
         [(''https://api.ouraring.com/v2/usercollection/daily_sleep'',
             strftime_ymd lib d, strftime_ymd lib t),
          (''https://api.ouraring.com/v2/usercollection/sleep'',
             strftime_ymd lib d, strftime_ymd lib t),
          (''https://api.ouraring.com/v2/usercollection/daily_readiness'',
             strftime_ymd lib d, strftime_ymd lib t),
          (''https://api.ouraring.com/v2/usercollection/daily_activity'',
             strftime_ymd lib y, strftime_ymd lib d),
          (''https://api.ouraring.com/v2/usercollection/daily_stress'',
             strftime_ymd lib y, strftime_ymd lib d),
          (''https://api.ouraring.com/v2/usercollection/workout'',
             strftime_ymd lib y, strftime_ymd lib d),
          (''https://api.ouraring.com/v2/usercollection/sleep_time'',
             strftime_ymd lib y, strftime_ymd lib d)]"
    unfolding category_windows .
  have full: "n = 7" if r: "fst ?run = Returned p" for p
  proof -
    from get_todays_data_returned [OF r] y1 t3 assms(3)
    have "snd ?run = [] @ map snd ?plan" by auto
    with log run have "map snd (take n ?plan) = map snd ?plan" by simp
    then have "length (take n ?plan) = length ?plan"
      by (metis length_map)
    with n len show ?thesis by simp
  qed
  have dates: "dict_get p ''date'' JNull = Inr (JStr (strftime_ymd lib d))
             \<and> dict_get p ''activity_date'' JNull = Inr (JStr (strftime_ymd lib y))"
    if r: "fst ?run = Returned p" for p
  proof -
    from get_todays_data_returned [OF r] y1 t3 assms(3)
    have "p = JDict (store_all http ?plan ?init)" by auto
    then show ?thesis
      by (simp add: dict_get_JDict store_all_keeps_dates initial_data_keys)
  qed
  from n len have n7: "n \<le> 7" by simp
  have "\<exists>n\<le>7. map window (snd ?run)
      = take n
         [(''https://api.ouraring.com/v2/usercollection/daily_sleep'',
             strftime_ymd lib d, strftime_ymd lib t),
          (''https://api.ouraring.com/v2/usercollection/sleep'',
             strftime_ymd lib d, strftime_ymd lib t),
          (''https://api.ouraring.com/v2/usercollection/daily_readiness'',
             strftime_ymd lib d, strftime_ymd lib t),
          (''https://api.ouraring.com/v2/usercollection/daily_activity'',
             strftime_ymd lib y, strftime_ymd lib d),
          (''https://api.ouraring.com/v2/usercollection/daily_stress'',
             strftime_ymd lib y, strftime_ymd lib d),
          (''https://api.ouraring.com/v2/usercollection/workout'',
             strftime_ymd lib y, strftime_ymd lib d),
          (''https://api.ouraring.com/v2/usercollection/sleep_time'',
             strftime_ymd lib y, strftime_ymd lib d)]
      \<and> (\<forall>p. fst ?run = Returned p \<longrightarrow> n = 7)"
    using n7 windows full by blast
  with y t yo to dates show ?thesis by blast
qed

text \<open>
  The first morning of 2025: the activity date is the last day of December 2024, and
  the windows are those of the claim.
\<close>

theorem get_todays_data_dates_and_windows_witness:
  "valid_date \<lparr>year = 2025, month = 1, day = 1\<rparr>
   \<and> day_before \<lparr>year = 2025, month = 1, day = 1\<rparr> = Inr \<lparr>year = 2024, month = 12, day = 31\<rparr>
   \<and> ordinal \<lparr>year = 2024, month = 12, day = 31\<rparr> + 1
       = ordinal \<lparr>year = 2025, month = 1, day = 1\<rparr>
   \<and> fst (get_todays_data reference_lib offline_http ''token'' new_year_morning
            new_year_morning new_year_morning new_year_morning [])
       = Returned (JDict new_year_payload)
   \<and> map_of new_year_payload ''date'' = Some (JStr ''2025-01-01'')
   \<and> map_of new_year_payload ''activity_date'' = Some (JStr ''2024-12-31'')
   \<and> map window (snd (get_todays_data reference_lib offline_http ''token'' new_year_morning
                          new_year_morning new_year_morning new_year_morning []))
       = [(''https://api.ouraring.com/v2/usercollection/daily_sleep'',
             ''2025-01-01'', ''2025-01-02''),
          (''https://api.ouraring.com/v2/usercollection/sleep'',
             ''2025-01-01'', ''2025-01-02''),
          (''https://api.ouraring.com/v2/usercollection/daily_readiness'',
             ''2025-01-01'', ''2025-01-02''),
          (''https://api.ouraring.com/v2/usercollection/daily_activity'',
             ''2024-12-31'', ''2025-01-01''),
          (''https://api.ouraring.com/v2/usercollection/daily_stress'',
             ''2024-12-31'', ''2025-01-01''),
          (''https://api.ouraring.com/v2/usercollection/workout'',
             ''2024-12-31'', ''2025-01-01''),
          (''https://api.ouraring.com/v2/usercollection/sleep_time'',
             ''2024-12-31'', ''2025-01-01'')]"
proof -
  let ?d = "\<lparr>year = 2025, month = 1, day = 1\<rparr>"
  let ?run = "get_todays_data reference_lib offline_http ''token'' new_year_morning
                new_year_morning new_year_morning new_year_morning []"
  have v: "valid_date ?d"
    by (simp add: valid_date_def days_in_month_def)
  have on: "dt_date new_year_morning = ?d"
    by (simp add: new_year_morning_def)
  have lo: "?d \<noteq> \<lparr>year = 1, month = 1, day = 1\<rparr>"
   and hi: "?d \<noteq> \<lparr>year = 9999, month = 12, day = 31\<rparr>"
    by simp_all
  have ret: "fst ?run = Returned (JDict new_year_payload)"
    by (simp add: new_year_fetch_eval)
  have fmt: "strftime_ymd reference_lib ?d = ''2025-01-01''"
    "strftime_ymd reference_lib \<lparr>year = 2024, month = 12, day = 31\<rparr> = ''2024-12-31''"
    "strftime_ymd reference_lib \<lparr>year = 2025, month = 1, day = 2\<rparr> = ''2025-01-02''"
    by (simp_all add: reference_lib_def iso_date_def pad2_def nat_digits.simps)
  from get_todays_data_dates_and_windows
         [OF v on on on lo hi, of reference_lib offline_http "''token''" new_year_morning]
  obtain y t n where
    y: "day_before ?d = Inr y" and yo: "ordinal y + 1 = ordinal ?d" and
    t: "day_after ?d = Inr t" and
    n: "map window (snd ?run)
          = take n
             [(''https://api.ouraring.com/v2/usercollection/daily_sleep'',
                 strftime_ymd reference_lib ?d, strftime_ymd reference_lib t),
              (''https://api.ouraring.com/v2/usercollection/sleep'',
                 strftime_ymd reference_lib ?d, strftime_ymd reference_lib t),
              (''https://api.ouraring.com/v2/usercollection/daily_readiness'',
                 strftime_ymd reference_lib ?d, strftime_ymd reference_lib t),
              (''https://api.ouraring.com/v2/usercollection/daily_activity'',
                 strftime_ymd reference_lib y, strftime_ymd reference_lib ?d),
              (''https://api.ouraring.com/v2/usercollection/daily_stress'',
                 strftime_ymd reference_lib y, strftime_ymd reference_lib ?d),
              (''https://api.ouraring.com/v2/usercollection/workout'',
                 strftime_ymd reference_lib y, strftime_ymd reference_lib ?d),
              (''https://api.ouraring.com/v2/usercollection/sleep_time'',
                 strftime_ymd reference_lib y, strftime_ymd reference_lib ?d)]" and
    full: "\<forall>p. fst ?run = Returned p \<longrightarrow> n = 7" and
    dates: "\<forall>p. fst ?run = Returned p \<longrightarrow>
              dict_get p ''date'' JNull = Inr (JStr (strftime_ymd reference_lib ?d))
            \<and> dict_get p ''activity_date'' JNull = Inr (JStr (strftime_ymd reference_lib y))"
    by blast
  from y have y': "y = \<lparr>year = 2024, month = 12, day = 31\<rparr>"
    by (auto simp: day_before_def)
  from t have t': "t = \<lparr>year = 2025, month = 1, day = 2\<rparr>"
    by (auto simp: day_after_def days_in_month_def)
  from full ret have n7: "n = 7" by blast
  from dates ret have
    "dict_get (JDict new_year_payload) ''date'' JNull
       = Inr (JStr (strftime_ymd reference_lib ?d))"
    "dict_get (JDict new_year_payload) ''activity_date'' JNull
       = Inr (JStr (strftime_ymd reference_lib y))"
    by blast+
  then have k: "map_of new_year_payload ''date'' = Some (JStr ''2025-01-01'')"
    "map_of new_year_payload ''activity_date'' = Some (JStr ''2024-12-31'')"
    unfolding y' fmt by (simp_all add: dict_get_JDict split: option.splits)
  have w: "map window (snd ?run)
      = [(''https://api.ouraring.com/v2/usercollection/daily_sleep'',
            ''2025-01-01'', ''2025-01-02''),
         (''https://api.ouraring.com/v2/usercollection/sleep'',
            ''2025-01-01'', ''2025-01-02''),
         (''https://api.ouraring.com/v2/usercollection/daily_readiness'',
            ''2025-01-01'', ''2025-01-02''),
         (''https://api.ouraring.com/v2/usercollection/daily_activity'',
            ''2024-12-31'', ''2025-01-01''),
         (''https://api.ouraring.com/v2/usercollection/daily_stress'',
            ''2024-12-31'', ''2025-01-01''),
         (''https://api.ouraring.com/v2/usercollection/workout'',
            ''2024-12-31'', ''2025-01-01''),
         (''https://api.ouraring.com/v2/usercollection/sleep_time'',
            ''2024-12-31'', ''2025-01-01'')]"
    using n unfolding n7 y' t' fmt by simp
  show ?thesis
    using v y [unfolded y'] yo [unfolded y'] ret k w
    by (intro conjI)
qed

section \<open>Startup configuration\<close>

lemma missing_vars_filter:
  "missing_vars env =
     filter (\<lambda>v. env v = None \<or> env v = Some [])
       [''OURA_ACCESS_TOKEN'', ''SENDER_EMAIL'', ''SENDER_PASSWORD'']"
  by (auto simp: missing_vars_def env_false_def split: option.splits)

text \<open>
  Claim C8, as the code has it. \<^verbatim>\<open>load_config\<close> builds the configuration before it
  validates it, and building it converts \<^verbatim>\<open>SMTP_PORT\<close> with \<^verbatim>\<open>int\<close>. When that
  conversion succeeds (the variable is unset, so that the default \<^verbatim>\<open>"587"\<close> is
  converted, or holds an integer literal): if any of \<^verbatim>\<open>OURA_ACCESS_TOKEN\<close>,
  \<^verbatim>\<open>SENDER_EMAIL\<close> and \<^verbatim>\<open>SENDER_PASSWORD\<close> is unset or empty, the process leaves with
  exit status 1 after printing one message that lists every such variable, in that
  order; if all three are set, \<^verbatim>\<open>load_config\<close> returns the configuration.
  \<^verbatim>\<open>load_config\<close> has no access to the HTTP or mail collaborators: nothing is sent before
  it ends.
\<close>

theorem load_config_validates:
  assumes "int_of_str lib (case env ''SMTP_PORT'' of Some v \<Rightarrow> v | None \<Rightarrow> ''587'') = Some port"
  shows "(\<forall>missing.
            missing = filter (\<lambda>v. env v = None \<or> env v = Some [])
                        [''OURA_ACCESS_TOKEN'', ''SENDER_EMAIL'', ''SENDER_PASSWORD'']
            \<and> missing \<noteq> [] \<longrightarrow>
            load_config lib env =
              ([''Error: Missing required environment variables: '' @ join '', '' missing,
                ''Please update your .env file''],
               SystemExit 1))
       \<and> (\<forall>tok sender password.
            env ''OURA_ACCESS_TOKEN'' = Some tok \<and> tok \<noteq> []
            \<and> env ''SENDER_EMAIL'' = Some sender \<and> sender \<noteq> []
            \<and> env ''SENDER_PASSWORD'' = Some password \<and> password \<noteq> [] \<longrightarrow>
            load_config lib env =
              ([], Value
                 \<lparr> cfg_oura_token = tok,
                   cfg_smtp_server =
                     (case env ''SMTP_SERVER'' of Some v \<Rightarrow> v | None \<Rightarrow> ''smtp.gmail.com''),
                   cfg_smtp_port = port,
                   cfg_sender_email = sender,
                   cfg_sender_password = password,
                   cfg_recipient_email =
                     (case env ''RECIPIENT_EMAIL'' of Some v \<Rightarrow> v
                      | None \<Rightarrow> ''cooperpenniman@gmail.com''),
                   cfg_schedule_time =
                     (case env ''SCHEDULE_TIME'' of Some v \<Rightarrow> v | None \<Rightarrow> ''10:00'') \<rparr>))"
proof (intro conjI allI impI)
  fix missing
  assume "missing = filter (\<lambda>v. env v = None \<or> env v = Some [])
                      [''OURA_ACCESS_TOKEN'', ''SENDER_EMAIL'', ''SENDER_PASSWORD'']
          \<and> missing \<noteq> []"
  then have m: "missing = filter (\<lambda>v. env v = None \<or> env v = Some [])
                            [''OURA_ACCESS_TOKEN'', ''SENDER_EMAIL'', ''SENDER_PASSWORD'']"
    and ne: "missing \<noteq> []"
    by (rule conjunct1, rule conjunct2)
  have "missing_vars env = missing"
    unfolding m by (rule missing_vars_filter)
  with ne assms show "load_config lib env =
      ([''Error: Missing required environment variables: '' @ join '', '' missing,
        ''Please update your .env file''],
       SystemExit 1)"
    by (simp add: load_config_def getenv_default_def Let_def)
next
  fix tok sender password
  assume h: "env ''OURA_ACCESS_TOKEN'' = Some tok \<and> tok \<noteq> []
             \<and> env ''SENDER_EMAIL'' = Some sender \<and> sender \<noteq> []
             \<and> env ''SENDER_PASSWORD'' = Some password \<and> password \<noteq> []"
  then have "missing_vars env = []"
    by (simp add: missing_vars_def env_false_def)
  with assms h show "load_config lib env =
      ([], Value
         \<lparr> cfg_oura_token = tok,
           cfg_smtp_server =
             (case env ''SMTP_SERVER'' of Some v \<Rightarrow> v | None \<Rightarrow> ''smtp.gmail.com''),
           cfg_smtp_port = port,
           cfg_sender_email = sender,
           cfg_sender_password = password,
           cfg_recipient_email =
             (case env ''RECIPIENT_EMAIL'' of Some v \<Rightarrow> v
              | None \<Rightarrow> ''cooperpenniman@gmail.com''),
           cfg_schedule_time =
             (case env ''SCHEDULE_TIME'' of Some v \<Rightarrow> v | None \<Rightarrow> ''10:00'') \<rparr>)"
    by (simp add: load_config_def getenv_default_def Let_def)
qed

lemma default_port: "int_of_str reference_lib ''587'' = Some 587"
  by (simp add: reference_lib_def decimal_value_def)

text \<open>
  With only the sender address set, the message lists the token and the password; with
  the three variables set, the configuration is returned with the defaults of the others.
\<close>

theorem load_config_validates_witness:
  "load_config reference_lib sender_only_env =
     ([''Error: Missing required environment variables: OURA_ACCESS_TOKEN, SENDER_PASSWORD'',
       ''Please update your .env file''],
      SystemExit 1)
   \<and> load_config reference_lib full_env = ([], Value full_config)"
proof -
  have p1: "int_of_str reference_lib
              (case sender_only_env ''SMTP_PORT'' of Some v \<Rightarrow> v | None \<Rightarrow> ''587'') = Some 587"
    by (simp add: sender_only_env_def default_port)
  have p2: "int_of_str reference_lib
              (case full_env ''SMTP_PORT'' of Some v \<Rightarrow> v | None \<Rightarrow> ''587'') = Some 587"
    by (simp add: full_env_def default_port)
  have m: "filter (\<lambda>v. sender_only_env v = None \<or> sender_only_env v = Some [])
             [''OURA_ACCESS_TOKEN'', ''SENDER_EMAIL'', ''SENDER_PASSWORD'']
           = [''OURA_ACCESS_TOKEN'', ''SENDER_PASSWORD'']"
    by (simp add: sender_only_env_def)
  from load_config_validates [of reference_lib sender_only_env 587, OF p1, THEN conjunct1,
         rule_format, of "[''OURA_ACCESS_TOKEN'', ''SENDER_PASSWORD'']"] m
  have a: "load_config reference_lib sender_only_env =
     ([''Error: Missing required environment variables: OURA_ACCESS_TOKEN, SENDER_PASSWORD'',
       ''Please update your .env file''],
      SystemExit 1)"
    by simp
  from load_config_validates [of reference_lib full_env 587, OF p2, THEN conjunct2,
         rule_format, of "''token''" "''ring@example.org''" "''secret''"]
  have b: "load_config reference_lib full_env = ([], Value full_config)"
    by (simp add: full_env_def full_config_def)
  from a b show ?thesis by (intro conjI)
qed

text \<open>
  Claim C8 as stated fails: with the three variables missing and \<^verbatim>\<open>SMTP_PORT=abc\<close>,
  \<^verbatim>\<open>int("abc")\<close> raises ValueError while the configuration is built; no message listing
  the missing variables is printed and the process does not leave through
  \<^verbatim>\<open>sys.exit(1)\<close>.
\<close>

theorem load_config_bad_port_counterexample:
  "load_config reference_lib bad_port_env = ([], Raised ValueError)"
  by (simp add: load_config_def getenv_default_def bad_port_env_def reference_lib_def
      decimal_value_def)

end
